theory Spec2Isabelle
  imports Main "HOL-Library.Word"
begin

section \<open>The monitor action of the integration controller\<close>

text \<open>
  A shallow embedding of \<^verbatim>\<open>pkg/controller/integration/monitor.go\<close>: the action that
  reconciles an Integration in phase Deploying, Running or Error. The Go code works on
  a pointer to the Integration and calls collaborators that live in other packages; the
  model threads the pointed-to object through the steps, takes the collaborators as the
  fields of an environment record, and keeps a list of the collaborator calls made.
\<close>

subsection \<open>Data model\<close>

text \<open>
  A \<^verbatim>\<open>metav1.Time\<close> is an instant; the model counts nanoseconds from Go's zero time,
  so \<^verbatim>\<open>IsZero\<close> is equality with 0. A \<^verbatim>\<open>time.Duration\<close> is a signed 64-bit count of
  nanoseconds, and \<^verbatim>\<open>Time.Sub\<close> saturates at its two ends.
\<close>

type_synonym Time = int
type_synonym Duration = int

definition IsZero :: "Time \<Rightarrow> bool" where
  "IsZero t = (t = 0)"

definition minDuration :: Duration where
  "minDuration = - (2 ^ 63)"

definition maxDuration :: Duration where
  "maxDuration = 2 ^ 63 - 1"

definition Sub :: "Time \<Rightarrow> Time \<Rightarrow> Duration" where
  "Sub t u = (if t - u < minDuration then minDuration
              else if maxDuration < t - u then maxDuration else t - u)"

text \<open>
  The API types are declared outside the sources; the records below hold the fields
  that \<^verbatim>\<open>monitor.go\<close> reads or writes. Go's string-typed enumerations (phases, condition
  types and statuses) become datatypes, with a constructor for the values the action
  does not name. A pointer that may be nil is an option: the bound Kit reference, the
  \<^verbatim>\<open>*int32\<close> replica count, a firstTruthyTime, a deletion timestamp. The
  InitializationTimestamp is a time, set when the workload enters its lifecycle
  (section 3 of the spec).
\<close>

datatype ConditionStatus = ConditionTrue | ConditionFalse | ConditionUnknown

datatype IntegrationPhase =
    IntegrationPhaseNone
  | IntegrationPhaseInitialization
  | IntegrationPhaseDeploying
  | IntegrationPhaseRunning
  | IntegrationPhaseError
  | IntegrationPhaseOther string

datatype IntegrationKitPhase =
    IntegrationKitPhaseNone
  | IntegrationKitPhaseBuilding
  | IntegrationKitPhaseReady
  | IntegrationKitPhaseError
  | IntegrationKitPhaseOther string

datatype IntegrationConditionType =
    IntegrationConditionReady
  | IntegrationConditionDeploymentAvailable
  | IntegrationConditionOther string

datatype DeploymentConditionType =
    DeploymentAvailable
  | DeploymentProgressing
  | DeploymentReplicaFailure

datatype PodPhase = PodPending | PodRunning | PodSucceeded | PodFailed | PodUnknown

record ObjectReference =
  RefNamespace :: string
  RefName :: string

record IntegrationCondition =
  CondType :: IntegrationConditionType
  CondStatus :: ConditionStatus
  Reason :: string
  Message :: string
  LastTransitionTime :: Time
  FirstTruthyTime :: "Time option"

record IntegrationStatus =
  Phase :: IntegrationPhase
  Digest :: string
  IntegrationKit :: "ObjectReference option"
  Selector :: string
  Replicas :: "32 word option"
  Conditions :: "IntegrationCondition list"
  InitializationTimestamp :: Time

record Integration =
  Namespace :: string
  Name :: string
  Spec :: string
  Status :: IntegrationStatus

record IntegrationKit =
  KitNamespace :: string
  KitName :: string
  KitLabels :: "string \<rightharpoonup> string"
  KitPhase :: IntegrationKitPhase

record Pod =
  PodName :: string
  DeletionTimestamp :: "Time option"

record DeploymentCondition =
  DType :: DeploymentConditionType
  DStatus :: ConditionStatus
  DReason :: string

record Deployment =
  DeploymentConditions :: "DeploymentCondition list"
  AvailableReplicas :: "32 word"

text \<open>
  The errors \<^verbatim>\<open>Handle\<close> can return: the two it builds itself, the \<^verbatim>\<open>*strconv.NumError\<close>
  of \<^verbatim>\<open>strconv.Atoi\<close> (with the string that did not parse), the error of
  \<^verbatim>\<open>labels.NewRequirement\<close>, and whatever a collaborator returned.
\<close>

datatype error =
    ErrNoKitSet string
  | ErrUnableToFindKit string string error
  | NumError string
  | ErrInvalidRequirement string
  | ErrCollaborator string

subsection \<open>Constants of package v1 that the action uses\<close>

text \<open>
  Modelled from the spec: the label keys and condition reasons are constants of
  \<^verbatim>\<open>pkg/apis/camel/v1\<close>, which is not among the sources. The spec only says they are
  fixed strings; the theorems below use them by name.
\<close>

definition IntegrationLabel :: string where
  "IntegrationLabel = ''camel.apache.org/integration''"

definition IntegrationKitPriorityLabel :: string where
  "IntegrationKitPriorityLabel = ''camel.apache.org/kit.priority''"

definition IntegrationConditionErrorReason :: string where
  "IntegrationConditionErrorReason = ''Error''"

definition IntegrationConditionReplicaSetReadyReason :: string where
  "IntegrationConditionReplicaSetReadyReason = ''ReplicaSetReady''"

subsection \<open>Parsing a priority: \<^verbatim>\<open>strconv.Atoi\<close>\<close>

text \<open>
  \<^verbatim>\<open>strconv.Atoi\<close> on a 64-bit platform: an optional sign, then at least one character,
  all of them decimal digits, and a value that fits a signed 64-bit integer. Anything
  else is a \<^verbatim>\<open>*NumError\<close> (the model does not tell a syntax error from a range error).
\<close>

definition isDigit :: "char \<Rightarrow> bool" where
  "isDigit c = ((48::nat) \<le> of_char c \<and> of_char c \<le> (57::nat))"

definition digitVal :: "char \<Rightarrow> int" where
  "digitVal c = int (of_char c :: nat) - 48"

definition digitsVal :: "string \<Rightarrow> int" where
  "digitsVal ds = foldl (\<lambda>n ch. n * 10 + digitVal ch) 0 ds"

definition Atoi :: "string \<Rightarrow> error + int" where
  "Atoi s =
     (let neg = (s \<noteq> [] \<and> hd s = CHR ''-'');
          ds = (if s \<noteq> [] \<and> (hd s = CHR ''-'' \<or> hd s = CHR ''+'') then tl s else s)
      in if ds = [] \<or> \<not> list_all isDigit ds then Inl (NumError s)
         else let n = (if neg then - digitsVal ds else digitsVal ds)
              in if n < - (2 ^ 63) \<or> 2 ^ 63 - 1 < n then Inl (NumError s) else Inr n)"

subsection \<open>Selecting the ready Kit of highest priority\<close>

text \<open>
  \<^verbatim>\<open>k.Labels[key]\<close> on a Go map: the empty string when the key is absent.
\<close>

definition labelOf :: "IntegrationKit \<Rightarrow> string \<Rightarrow> string" where
  "labelOf k key = (case KitLabels k key of None \<Rightarrow> [] | Some v \<Rightarrow> v)"

text \<open>
  The loop of \<^verbatim>\<open>findHighestPriorityReadyKit\<close> (lines 233 to 245). Its state is the Kit
  chosen so far (\<^verbatim>\<open>kit = &kits[i]\<close> points into the list, which nothing changes, so the
  model keeps the element; \<open>None\<close> is the nil pointer) and the priority to beat.
\<close>

fun findLoop :: "IntegrationKit list \<Rightarrow> IntegrationKit option \<Rightarrow> int \<Rightarrow> error + IntegrationKit option" where
  "findLoop [] kit priority = Inr kit"
| "findLoop (k # ks) kit priority =
     (if KitPhase k \<noteq> IntegrationKitPhaseReady then findLoop ks kit priority
      else (case Atoi (labelOf k IntegrationKitPriorityLabel) of
              Inl err \<Rightarrow> Inl err
            | Inr p \<Rightarrow>
                if p > priority then findLoop ks (Some k) p
                else findLoop ks kit priority))"

definition findHighestPriorityReadyKit :: "IntegrationKit list \<Rightarrow> error + IntegrationKit option" where
  "findHighestPriorityReadyKit kits =
     (if length kits = 0 then Inr None else findLoop kits None 0)"

text \<open>
  The parsed priority of a Kit, for stating what selection returns; 0 stands in where
  the label does not parse (the theorems that use it assume it does).
\<close>

definition kitPriority :: "IntegrationKit \<Rightarrow> int" where
  "kitPriority k = (case Atoi (labelOf k IntegrationKitPriorityLabel) of Inl err \<Rightarrow> 0 | Inr p \<Rightarrow> p)"

subsection \<open>The label selector: \<^verbatim>\<open>labels.NewRequirement\<close>\<close>

text \<open>
  \<^verbatim>\<open>labels.NewRequirement(key, selection.GreaterThan, []string{priority})\<close> of the
  Kubernetes library accepts its one value when \<^verbatim>\<open>strconv.ParseInt(v, 10, 64)\<close> parses it
  (which is \<^verbatim>\<open>Atoi\<close> on a 64-bit platform) and when it is a valid label value: at most 63
  characters, alphanumeric at both ends, with \<^verbatim>\<open>-\<close>, \<^verbatim>\<open>_\<close> and \<^verbatim>\<open>.\<close> allowed in between. The
  requirement it returns is represented by that value, the exclusive lower bound.
\<close>

definition isAlnum :: "char \<Rightarrow> bool" where
  "isAlnum c = (isDigit c
     \<or> ((65::nat) \<le> of_char c \<and> of_char c \<le> (90::nat))
     \<or> ((97::nat) \<le> of_char c \<and> of_char c \<le> (122::nat)))"

definition isLabelValueChar :: "char \<Rightarrow> bool" where
  "isLabelValueChar c = (isAlnum c \<or> c = CHR ''-'' \<or> c = CHR ''_'' \<or> c = CHR ''.'')"

definition validateLabelValue :: "string \<Rightarrow> bool" where
  "validateLabelValue v =
     (length v \<le> 63 \<and>
      (v = [] \<or> (isAlnum (hd v) \<and> isAlnum (last v) \<and> list_all isLabelValueChar v)))"

definition NewRequirement :: "string \<Rightarrow> error + string" where
  "NewRequirement v =
     (case Atoi v of
        Inl err \<Rightarrow> Inl (ErrInvalidRequirement v)
      | Inr n \<Rightarrow> if validateLabelValue v then Inr v else Inl (ErrInvalidRequirement v))"

subsection \<open>Helpers of the status object\<close>

text \<open>
  Modelled from the spec: \<^verbatim>\<open>IntegrationStatus.GetCondition\<close> is not among the sources.
  Conditions are named and looked up by type; the first condition of the type is the
  one returned, \<open>None\<close> standing for the nil pointer. What is returned is the condition
  as it is at the call: a later write to the status does not change it.
\<close>

definition GetCondition :: "IntegrationConditionType \<Rightarrow> IntegrationStatus \<Rightarrow> IntegrationCondition option" where
  "GetCondition ty st = find (\<lambda>c. CondType c = ty) (Conditions st)"

text \<open>
  Modelled from the spec: \<^verbatim>\<open>kubernetes.IsConditionTrue\<close> is not among the sources. The
  spec's step 8 reads it as "the condition is currently True".
\<close>

definition IsConditionTrue :: "Integration \<Rightarrow> IntegrationConditionType \<Rightarrow> bool" where
  "IsConditionTrue integration ty =
     (case GetCondition ty (Status integration) of
        None \<Rightarrow> False
      | Some c \<Rightarrow> CondStatus c = ConditionTrue)"

text \<open>
  The test the action makes twice on a condition pointer (lines 154 and 155):
  \<^verbatim>\<open>c == nil || c.FirstTruthyTime == nil || c.FirstTruthyTime.IsZero()\<close>.
\<close>

definition firstTruthyUnset :: "IntegrationCondition option \<Rightarrow> bool" where
  "firstTruthyUnset c =
     (case c of
        None \<Rightarrow> True
      | Some x \<Rightarrow> (case FirstTruthyTime x of None \<Rightarrow> True | Some t \<Rightarrow> IsZero t))"

text \<open>
  Modelled from the spec: \<^verbatim>\<open>IntegrationStatus.SetConditions\<close> is not among the sources.
  Section 4.3: it upserts by type, updating status, reason, message and
  lastTransitionTime, and sets firstTruthyTime exactly once, on the transition into
  status True, never overwriting it afterwards. \<open>now\<close> is the clock reading it stamps.
\<close>

definition upsertCondition :: "Time \<Rightarrow> IntegrationCondition \<Rightarrow> IntegrationCondition list \<Rightarrow> IntegrationCondition list" where
  "upsertCondition now c cs =
     (case find (\<lambda>x. CondType x = CondType c) cs of
        None \<Rightarrow>
          cs @ [c\<lparr>LastTransitionTime := now,
                  FirstTruthyTime := (if CondStatus c = ConditionTrue then Some now else None)\<rparr>]
      | Some old \<Rightarrow>
          map (\<lambda>x. if CondType x = CondType c
                    then x\<lparr>CondStatus := CondStatus c, Reason := Reason c, Message := Message c,
                           LastTransitionTime := now,
                           FirstTruthyTime :=
                             (if CondStatus c = ConditionTrue \<and> firstTruthyUnset (Some x)
                              then Some now else FirstTruthyTime x)\<rparr>
                    else x) cs)"

definition SetConditions :: "Time \<Rightarrow> IntegrationCondition list \<Rightarrow> IntegrationStatus \<Rightarrow> IntegrationStatus" where
  "SetConditions now conditions st =
     st\<lparr>Conditions := foldl (\<lambda>cs c. upsertCondition now c cs) (Conditions st) conditions\<rparr>"

text \<open>
  Modelled from the spec: \<^verbatim>\<open>Integration.SetIntegrationKit\<close> is not among the sources.
  Section 4.2: the workload's bound Kit reference is updated to point to the Kit.
\<close>

definition SetIntegrationKit :: "IntegrationKit \<Rightarrow> Integration \<Rightarrow> Integration" where
  "SetIntegrationKit kit integration =
     integration\<lparr>Status := (Status integration)
       \<lparr>IntegrationKit := Some \<lparr>RefNamespace = KitNamespace kit, RefName = KitName kit\<rparr>\<rparr>\<rparr>"

subsection \<open>Collaborators\<close>

text \<open>
  The functions of other packages that \<^verbatim>\<open>Handle\<close> calls, as parameters. Each takes what
  the Go call passes and returns what the Go call returns; a function that mutates the
  Integration behind the pointer returns the mutated object. The digest computation
  and the two Kit lookups only read it. \<^verbatim>\<open>trait.Apply\<close> may have changed the object even
  when it fails. \<^verbatim>\<open>kubernetes.MirrorReadyCondition\<close> writes
  conditions only (section 4.3), so it returns the new condition list. The pod lists of
  \<^verbatim>\<open>client.List\<close> are asked for by namespace, integration label and \<^verbatim>\<open>status.phase\<close>.
\<close>

record Collaborators =
  digest_ComputeForIntegration :: "Integration \<Rightarrow> error + string"
  Initialize :: "Integration \<Rightarrow> Integration"
  kubernetes_GetIntegrationKit :: "string \<Rightarrow> string \<Rightarrow> error + IntegrationKit"
  lookupKitsForIntegration :: "Integration \<Rightarrow> string \<Rightarrow> error + IntegrationKit list"
  trait_Apply :: "Integration \<Rightarrow> IntegrationKit \<Rightarrow> Integration \<times> error option"
  client_List :: "string \<Rightarrow> string \<Rightarrow> PodPhase \<Rightarrow> error + Pod list"
  kubernetes_MirrorReadyCondition :: "Integration \<Rightarrow> IntegrationCondition list"
  kubernetes_GetDeployment :: "string \<Rightarrow> string \<Rightarrow> error + Deployment"
  metav1_Now :: Time

text \<open>
  What a pass does besides changing the object: the collaborator calls, the log lines
  and the metric observation, in the order made. \<open>EvObserve\<close> carries the duration
  whose \<^verbatim>\<open>Seconds()\<close> the histogram receives.
\<close>

datatype event =
    EvComputeForIntegration
  | EvInfo string
  | EvInitialize
  | EvGetIntegrationKit string string
  | EvLookupKits string
  | EvTraitApply Integration IntegrationKit
  | EvListPods string string PodPhase
  | EvMirrorReadyCondition
  | EvInfof string Duration
  | EvObserve Duration
  | EvGetDeployment string string

text \<open>
  The outcome of one call of \<^verbatim>\<open>Handle\<close>: the pair it returns (\<open>Inl err\<close> for
  \<^verbatim>\<open>nil, err\<close> and \<open>Inr i\<close> for \<^verbatim>\<open>integration, nil\<close>), the Integration behind the
  caller's pointer as the call left it, and the events.
\<close>

record HandleResult =
  returned :: "error + Integration"
  object :: Integration
  events :: "event list"

definition failWith :: "error \<Rightarrow> Integration \<Rightarrow> event list \<Rightarrow> HandleResult" where
  "failWith err integration evs = \<lparr>returned = Inl err, object = integration, events = evs\<rparr>"

definition succeed :: "Integration \<Rightarrow> event list \<Rightarrow> HandleResult" where
  "succeed integration evs = \<lparr>returned = Inr integration, object = integration, events = evs\<rparr>"

text \<open>A step either has made \<^verbatim>\<open>Handle\<close> return (\<open>Inl\<close>) or hands its state on.\<close>

definition andThen :: "HandleResult + 'a \<Rightarrow> ('a \<Rightarrow> HandleResult + 'b) \<Rightarrow> HandleResult + 'b" where
  "andThen s f = (case s of Inl r \<Rightarrow> Inl r | Inr x \<Rightarrow> f x)"

subsection \<open>The action\<close>

definition CanHandle :: "Integration \<Rightarrow> bool" where
  "CanHandle integration =
     (Phase (Status integration) = IntegrationPhaseDeploying \<or>
      Phase (Status integration) = IntegrationPhaseRunning \<or>
      Phase (Status integration) = IntegrationPhaseError)"

text \<open>Lines 58 to 76: the Kit must be set; a changed digest sends the Integration back.\<close>

definition checkRebuild :: "Collaborators \<Rightarrow> Integration \<Rightarrow> HandleResult + (Integration \<times> ObjectReference \<times> event list)" where
  "checkRebuild env integration =
     (case IntegrationKit (Status integration) of
        None \<Rightarrow> Inl (failWith (ErrNoKitSet (Name integration)) integration [])
      | Some ref \<Rightarrow>
          (case digest_ComputeForIntegration env integration of
             Inl err \<Rightarrow> Inl (failWith err integration [EvComputeForIntegration])
           | Inr hash \<Rightarrow>
               if hash \<noteq> Digest (Status integration) then
                 (let i1 = Initialize env integration;
                      i2 = i1\<lparr>Status := (Status i1)\<lparr>Digest := hash\<rparr>\<rparr>
                  in Inl (succeed i2
                       [EvComputeForIntegration, EvInfo ''Integration needs a rebuild'', EvInitialize]))
               else Inr (integration, ref, [EvComputeForIntegration])))"

text \<open>Lines 78 to 104: fetch the bound Kit, look for a ready Kit of higher priority, rebind.\<close>

definition upgradeKit :: "Collaborators \<Rightarrow> Integration \<times> ObjectReference \<times> event list \<Rightarrow> HandleResult + (Integration \<times> IntegrationKit \<times> event list)" where
  "upgradeKit env s =
     (case s of (integration, ref, evs) \<Rightarrow>
       (let evs1 = evs @ [EvGetIntegrationKit (RefName ref) (RefNamespace ref)]
        in case kubernetes_GetIntegrationKit env (RefName ref) (RefNamespace ref) of
             Inl err \<Rightarrow>
               Inl (failWith (ErrUnableToFindKit (RefNamespace ref) (RefName ref) err) integration evs1)
           | Inr kit \<Rightarrow>
               (let priority = (case KitLabels kit IntegrationKitPriorityLabel of
                                  Some v \<Rightarrow> v | None \<Rightarrow> ''0'')
                in case NewRequirement priority of
                     Inl err \<Rightarrow> Inl (failWith err integration evs1)
                   | Inr withHigherPriority \<Rightarrow>
                       (let evs2 = evs1 @ [EvLookupKits withHigherPriority]
                        in case lookupKitsForIntegration env integration withHigherPriority of
                             Inl err \<Rightarrow> Inl (failWith err integration evs2)
                           | Inr kits \<Rightarrow>
                               (case findHighestPriorityReadyKit kits of
                                  Inl err \<Rightarrow> Inl (failWith err integration evs2)
                                | Inr priorityReadyKit \<Rightarrow>
                                    Inr ((case priorityReadyKit of
                                            None \<Rightarrow> integration
                                          | Some k \<Rightarrow> SetIntegrationKit k integration),
                                         kit, evs2))))))"

text \<open>Lines 106 to 110: run the traits, with the Integration and the variable \<^verbatim>\<open>kit\<close>.\<close>

definition applyTraits :: "Collaborators \<Rightarrow> Integration \<times> IntegrationKit \<times> event list \<Rightarrow> HandleResult + (Integration \<times> event list)" where
  "applyTraits env s =
     (case s of (integration, kit, evs) \<Rightarrow>
       (let evs1 = evs @ [EvTraitApply integration kit]
        in case trait_Apply env integration kit of
             (i1, Some err) \<Rightarrow> Inl (failWith err i1 evs1)
           | (i1, None) \<Rightarrow> Inr (i1, evs1)))"

text \<open>The loop of lines 134 to 140 over the running pods.\<close>

fun nonTerminatingLoop :: "Pod list \<Rightarrow> nat \<Rightarrow> nat" where
  "nonTerminatingLoop [] nonTerminatingPods = nonTerminatingPods"
| "nonTerminatingLoop (pod # pods) nonTerminatingPods =
     (if DeletionTimestamp pod \<noteq> None then nonTerminatingLoop pods nonTerminatingPods
      else nonTerminatingLoop pods (nonTerminatingPods + 1))"

text \<open>
  Lines 112 to 147: the selector, the replica count (\<^verbatim>\<open>int32(...)\<close> keeps the low 32
  bits) and the step from Deploying to Running.
\<close>

definition accountReplicas :: "Collaborators \<Rightarrow> Integration \<times> event list \<Rightarrow> HandleResult + (Integration \<times> event list)" where
  "accountReplicas env s =
     (case s of (integration, evs) \<Rightarrow>
       (let i1 = integration\<lparr>Status := (Status integration)
                   \<lparr>Selector := IntegrationLabel @ ''='' @ Name integration\<rparr>\<rparr>;
            evs1 = evs @ [EvListPods (Namespace i1) (Name i1) PodPending]
        in case client_List env (Namespace i1) (Name i1) PodPending of
             Inl err \<Rightarrow> Inl (failWith err i1 evs1)
           | Inr pendingPods \<Rightarrow>
               (let evs2 = evs1 @ [EvListPods (Namespace i1) (Name i1) PodRunning]
                in case client_List env (Namespace i1) (Name i1) PodRunning of
                     Inl err \<Rightarrow> Inl (failWith err i1 evs2)
                   | Inr runningPods \<Rightarrow>
                       (let nonTerminatingPods = nonTerminatingLoop runningPods 0;
                            podCount = (word_of_nat (length pendingPods + nonTerminatingPods) :: 32 word);
                            i2 = i1\<lparr>Status := (Status i1)\<lparr>Replicas := Some podCount\<rparr>\<rparr>;
                            i3 = (if Phase (Status i2) = IntegrationPhaseDeploying
                                  then i2\<lparr>Status := (Status i2)\<lparr>Phase := IntegrationPhaseRunning\<rparr>\<rparr>
                                  else i2)
                        in Inr (i3, evs2)))))"

text \<open>Lines 149 to 160: mirror the ready condition and observe the first readiness.\<close>

definition mirrorReady :: "Collaborators \<Rightarrow> Integration \<times> event list \<Rightarrow> Integration \<times> event list" where
  "mirrorReady env s =
     (case s of (integration, evs) \<Rightarrow>
       (let previous = GetCondition IntegrationConditionReady (Status integration);
            i1 = integration\<lparr>Status := (Status integration)
                   \<lparr>Conditions := kubernetes_MirrorReadyCondition env integration\<rparr>\<rparr>;
            evs1 = evs @ [EvMirrorReadyCondition]
        in case GetCondition IntegrationConditionReady (Status i1) of
             None \<Rightarrow> (i1, evs1)
           | Some next \<Rightarrow>
               (case FirstTruthyTime next of
                  None \<Rightarrow> (i1, evs1)
                | Some firstTruthy \<Rightarrow>
                    if firstTruthyUnset previous \<and> CondStatus next = ConditionTrue
                       \<and> \<not> IsZero firstTruthy
                    then (let duration = Sub firstTruthy (InitializationTimestamp (Status i1))
                          in (i1, evs1 @ [EvInfof ''First readiness after %s'' duration,
                                          EvObserve duration]))
                    else (i1, evs1))))"

text \<open>The two loops over the deployment's conditions (lines 174 to 184 and 201 to 210).\<close>

fun runningLoop :: "Deployment \<Rightarrow> DeploymentCondition list \<Rightarrow> bool \<Rightarrow> bool \<Rightarrow> bool \<times> bool" where
  "runningLoop deployment [] deployUnavailable progressingFailing =
     (deployUnavailable, progressingFailing)"
| "runningLoop deployment (c # cs) deployUnavailable progressingFailing =
     runningLoop deployment cs
       (if DType c = DeploymentAvailable then DStatus c = ConditionFalse else deployUnavailable)
       (if DType c = DeploymentProgressing
        then DStatus c = ConditionTrue \<and> DReason c = ''NewReplicaSetAvailable''
             \<and> sint (AvailableReplicas deployment) < 1
        else progressingFailing)"

fun errorLoop :: "DeploymentCondition list \<Rightarrow> bool \<Rightarrow> bool \<Rightarrow> bool \<times> bool" where
  "errorLoop [] deployAvailable progressingOk = (deployAvailable, progressingOk)"
| "errorLoop (c # cs) deployAvailable progressingOk =
     errorLoop cs
       (if DType c = DeploymentAvailable then DStatus c = ConditionTrue else deployAvailable)
       (if DType c = DeploymentProgressing
        then DStatus c = ConditionTrue
             \<and> (DReason c = ''NewReplicaSetAvailable'' \<or> DReason c = ''ReplicaSetUpdated'')
        else progressingOk)"

definition notAvailableCondition :: IntegrationCondition where
  "notAvailableCondition =
     \<lparr>CondType = IntegrationConditionReady, CondStatus = ConditionFalse,
      Reason = IntegrationConditionErrorReason,
      Message = ''The corresponding pod(s) may be in error state, look at the pod status or log for errors'',
      LastTransitionTime = 0, FirstTruthyTime = None\<rparr>"

definition availableCondition :: IntegrationCondition where
  "availableCondition =
     \<lparr>CondType = IntegrationConditionReady, CondStatus = ConditionTrue,
      Reason = IntegrationConditionReplicaSetReadyReason,
      Message = [], LastTransitionTime = 0, FirstTruthyTime = None\<rparr>"

text \<open>Lines 162 to 224: the check of the deployment, and the final return.\<close>

definition deploymentHealth :: "Collaborators \<Rightarrow> Integration \<times> event list \<Rightarrow> HandleResult" where
  "deploymentHealth env s =
     (case s of (integration, evs) \<Rightarrow>
       if IsConditionTrue integration IntegrationConditionDeploymentAvailable then
         (let evs1 = evs @ [EvGetDeployment (Name integration) (Namespace integration)]
          in case kubernetes_GetDeployment env (Name integration) (Namespace integration) of
               Inl err \<Rightarrow> failWith err integration evs1
             | Inr deployment \<Rightarrow>
                 (case Phase (Status integration) of
                    IntegrationPhaseRunning \<Rightarrow>
                      (case runningLoop deployment (DeploymentConditions deployment) False False of
                         (deployUnavailable, progressingFailing) \<Rightarrow>
                           if deployUnavailable \<and> progressingFailing then
                             succeed (integration\<lparr>Status :=
                                 (SetConditions (metav1_Now env) [notAvailableCondition] (Status integration))
                                   \<lparr>Phase := IntegrationPhaseError\<rparr>\<rparr>) evs1
                           else succeed integration evs1)
                  | IntegrationPhaseError \<Rightarrow>
                      (case errorLoop (DeploymentConditions deployment) False False of
                         (deployAvailable, progressingOk) \<Rightarrow>
                           if deployAvailable \<and> progressingOk then
                             succeed (integration\<lparr>Status :=
                                 (SetConditions (metav1_Now env) [availableCondition] (Status integration))
                                   \<lparr>Phase := IntegrationPhaseRunning\<rparr>\<rparr>) evs1
                           else succeed integration evs1)
                  | _ \<Rightarrow> succeed integration evs1))
       else succeed integration evs)"

text \<open>
  \<^verbatim>\<open>Handle\<close>, lines 57 to 225: the steps in the order of the source. \<open>beforeApply\<close>,
  \<open>beforeReplicas\<close>, \<open>beforeMirror\<close> and \<open>beforeHealth\<close> name the state in which a pass
  arrives at the call of \<^verbatim>\<open>trait.Apply\<close>, at the selector and replica count, at the
  mirroring and at the check of the deployment (\<open>Inl\<close> when it has returned earlier).
\<close>

definition beforeApply :: "Collaborators \<Rightarrow> Integration \<Rightarrow> HandleResult + (Integration \<times> IntegrationKit \<times> event list)" where
  "beforeApply env integration = andThen (checkRebuild env integration) (upgradeKit env)"

definition beforeReplicas :: "Collaborators \<Rightarrow> Integration \<Rightarrow> HandleResult + (Integration \<times> event list)" where
  "beforeReplicas env integration = andThen (beforeApply env integration) (applyTraits env)"

definition beforeMirror :: "Collaborators \<Rightarrow> Integration \<Rightarrow> HandleResult + (Integration \<times> event list)" where
  "beforeMirror env integration = andThen (beforeReplicas env integration) (accountReplicas env)"

definition beforeHealth :: "Collaborators \<Rightarrow> Integration \<Rightarrow> HandleResult + (Integration \<times> event list)" where
  "beforeHealth env integration =
     andThen (beforeMirror env integration) (\<lambda>s. Inr (mirrorReady env s))"

definition Handle :: "Collaborators \<Rightarrow> Integration \<Rightarrow> HandleResult" where
  "Handle env integration =
     (case beforeHealth env integration of Inl r \<Rightarrow> r | Inr s \<Rightarrow> deploymentHealth env s)"

subsection \<open>Notions used to state the properties\<close>

text \<open>
  Position \<open>j\<close> of a candidate list holds the ready Kit of highest priority, the first
  of them where several share that priority.
\<close>

definition isHighestReady :: "IntegrationKit list \<Rightarrow> nat \<Rightarrow> bool" where
  "isHighestReady kits j =
     (j < length kits \<and> KitPhase (kits ! j) = IntegrationKitPhaseReady \<and>
      (\<forall>m<length kits. KitPhase (kits ! m) = IntegrationKitPhaseReady \<longrightarrow>
         kitPriority (kits ! m) \<le> kitPriority (kits ! j) \<and>
         (m < j \<longrightarrow> kitPriority (kits ! m) < kitPriority (kits ! j))))"

text \<open>
  A deployment reports a condition of type \<open>ty\<close> with property \<open>P\<close>: it has a condition
  of that type, and each of its conditions of that type has the property (the API keeps
  one condition per type).
\<close>

definition reports :: "Deployment \<Rightarrow> DeploymentConditionType \<Rightarrow> (DeploymentCondition \<Rightarrow> bool) \<Rightarrow> bool" where
  "reports deployment ty P =
     ((\<exists>c\<in>set (DeploymentConditions deployment). DType c = ty) \<and>
      (\<forall>c\<in>set (DeploymentConditions deployment). DType c = ty \<longrightarrow> P c))"


text \<open>The durations observed by the time-to-first-readiness metric, in order.\<close>

fun observations :: "event list \<Rightarrow> Duration list" where
  "observations [] = []"
| "observations (EvObserve d # evs) = d # observations evs"
| "observations (ev # evs) = observations evs"

fun traitApplications :: "event list \<Rightarrow> (Integration \<times> IntegrationKit) list" where
  "traitApplications [] = []"
| "traitApplications (EvTraitApply i k # evs) = (i, k) # traitApplications evs"
| "traitApplications (ev # evs) = traitApplications evs"






subsection \<open>A small cluster, for concrete runs\<close>

definition mkKit :: "string \<Rightarrow> string option \<Rightarrow> IntegrationKitPhase \<Rightarrow> IntegrationKit" where
  "mkKit name priority phase =
     \<lparr>KitNamespace = ''ns'', KitName = name,
      KitLabels = (case priority of None \<Rightarrow> Map.empty
                   | Some v \<Rightarrow> [IntegrationKitPriorityLabel \<mapsto> v]),
      KitPhase = phase\<rparr>"

definition kitA :: IntegrationKit where
  "kitA = mkKit ''kit-a'' (Some ''1'') IntegrationKitPhaseReady"

definition kitB :: IntegrationKit where
  "kitB = mkKit ''kit-b'' (Some ''5'') IntegrationKitPhaseReady"

definition kitC :: IntegrationKit where
  "kitC = mkKit ''kit-c'' (Some ''5'') IntegrationKitPhaseReady"

definition kitD :: IntegrationKit where
  "kitD = mkKit ''kit-d'' (Some ''9'') IntegrationKitPhaseBuilding"

definition kitUnlabelled :: IntegrationKit where
  "kitUnlabelled = mkKit ''kit-x'' None IntegrationKitPhaseBuilding"

definition kitMalformed :: IntegrationKit where
  "kitMalformed = mkKit ''kit-y'' (Some ''high'') IntegrationKitPhaseReady"

definition mkCondition :: "IntegrationConditionType \<Rightarrow> ConditionStatus \<Rightarrow> IntegrationCondition" where
  "mkCondition ty st =
     \<lparr>CondType = ty, CondStatus = st, Reason = [], Message = [],
      LastTransitionTime = 0, FirstTruthyTime = None\<rparr>"

definition demoIntegration :: "IntegrationPhase \<Rightarrow> Integration" where
  "demoIntegration phase =
     \<lparr>Namespace = ''ns'', Name = ''demo'', Spec = ''v1'',
      Status = \<lparr>Phase = phase, Digest = ''v1'',
                IntegrationKit = Some \<lparr>RefNamespace = ''ns'', RefName = ''kit-a''\<rparr>,
                Selector = [], Replicas = None,
                Conditions = [mkCondition IntegrationConditionDeploymentAvailable ConditionTrue],
                InitializationTimestamp = 100\<rparr>\<rparr>"

definition mkPod :: "string \<Rightarrow> Time option \<Rightarrow> Pod" where
  "mkPod name deleted = \<lparr>PodName = name, DeletionTimestamp = deleted\<rparr>"

definition demoPending :: "Pod list" where
  "demoPending = [mkPod ''p1'' None, mkPod ''p2'' None]"

definition demoRunning :: "Pod list" where
  "demoRunning = [mkPod ''r1'' None, mkPod ''r2'' (Some 450), mkPod ''r3'' None,
                  mkPod ''r4'' (Some 460), mkPod ''r5'' None]"

definition mkDeployment :: "ConditionStatus \<Rightarrow> string \<Rightarrow> 32 word \<Rightarrow> Deployment" where
  "mkDeployment available reason replicas =
     \<lparr>DeploymentConditions =
        [\<lparr>DType = DeploymentAvailable, DStatus = available, DReason = []\<rparr>,
         \<lparr>DType = DeploymentProgressing, DStatus = ConditionTrue, DReason = reason\<rparr>],
      AvailableReplicas = replicas\<rparr>"

text \<open>
  The cluster: Kit \<open>kit-a\<close> (priority 1) is bound, the Kits of higher priority are
  \<open>kit-d\<close> (9, still building), \<open>kit-b\<close> and \<open>kit-c\<close> (both 5 and ready); the digest of a
  workload is its spec; traits change nothing; mirroring reports Ready at time 500. The
  pod lists and the deployment are the parameters.
\<close>

definition demoEnv :: "error + Pod list \<Rightarrow> error + Pod list \<Rightarrow> error + Deployment \<Rightarrow> Collaborators" where
  "demoEnv pending running deployment =
     \<lparr>digest_ComputeForIntegration = (\<lambda>i. Inr (Spec i)),
      Initialize = (\<lambda>i. i\<lparr>Status := (Status i)\<lparr>Phase := IntegrationPhaseInitialization\<rparr>\<rparr>),
      kubernetes_GetIntegrationKit =
        (\<lambda>name namespace. if name = ''kit-a'' then Inr kitA
                           else if name = ''kit-b'' then Inr kitB
                           else Inl (ErrCollaborator ''not found'')),
      lookupKitsForIntegration =
        (\<lambda>i bound. if bound = ''1'' then Inr [kitD, kitB, kitC]
                    else if bound = ''5'' then Inr [kitD]
                    else Inr []),
      trait_Apply = (\<lambda>i k. (i, None)),
      client_List = (\<lambda>namespace name phase. if phase = PodPending then pending else running),
      kubernetes_MirrorReadyCondition =
        (\<lambda>i. upsertCondition 500 (mkCondition IntegrationConditionReady ConditionTrue)
                (Conditions (Status i))),
      kubernetes_GetDeployment = (\<lambda>name namespace. deployment),
      metav1_Now = 500\<rparr>"

definition healthy :: Deployment where
  "healthy = mkDeployment ConditionTrue ''NewReplicaSetAvailable'' 3"

definition crashing :: Deployment where
  "crashing = mkDeployment ConditionFalse ''NewReplicaSetAvailable'' 0"

text \<open>
  A reset that returns the status to its first state, conditions included; the user's
  edit of the spec; and the work of the build and deploy actions, which bind \<open>kit-a\<close>
  and bring the workload to phase Deploying with its deployment available, leaving the
  other conditions as they are.
\<close>

definition clearingInitialize :: "Integration \<Rightarrow> Integration" where
  "clearingInitialize i =
     i\<lparr>Status := \<lparr>Phase = IntegrationPhaseInitialization, Digest = [],
                   IntegrationKit = None, Selector = [], Replicas = None, Conditions = [],
                   InitializationTimestamp = InitializationTimestamp (Status i)\<rparr>\<rparr>"

definition editSpec :: "string \<Rightarrow> Integration \<Rightarrow> Integration" where
  "editSpec v i = i\<lparr>Spec := v\<rparr>"

definition rebuild :: "Integration \<Rightarrow> Integration" where
  "rebuild i =
     i\<lparr>Status := (Status i)
       \<lparr>Phase := IntegrationPhaseDeploying,
        IntegrationKit := Some \<lparr>RefNamespace = ''ns'', RefName = ''kit-a''\<rparr>,
        Conditions :=
          upsertCondition 450 (mkCondition IntegrationConditionDeploymentAvailable ConditionTrue)
            (Conditions (Status i))\<rparr>\<rparr>"

section \<open>Properties\<close>

lemmas demo_defs = demoEnv_def demoIntegration_def kitA_def kitB_def kitC_def kitD_def
  kitUnlabelled_def kitMalformed_def mkKit_def mkCondition_def mkPod_def demoPending_def
  demoRunning_def mkDeployment_def healthy_def crashing_def clearingInitialize_def
  editSpec_def rebuild_def

lemmas step_defs = Handle_def beforeHealth_def beforeMirror_def beforeReplicas_def
  beforeApply_def andThen_def checkRebuild_def upgradeKit_def applyTraits_def
  accountReplicas_def mirrorReady_def deploymentHealth_def succeed_def failWith_def

lemmas aux_defs = NewRequirement_def Atoi_def isDigit_def digitsVal_def digitVal_def
  validateLabelValue_def isAlnum_def isLabelValueChar_def findHighestPriorityReadyKit_def
  labelOf_def SetIntegrationKit_def GetCondition_def IsConditionTrue_def firstTruthyUnset_def
  upsertCondition_def SetConditions_def IsZero_def Sub_def minDuration_def maxDuration_def
  notAvailableCondition_def availableCondition_def

subsection \<open>Drift check\<close>

text \<open>
  Claim C1. For a workload in phase Deploying, Running or Error with a bound Kit
  reference, when the recomputed digest differs from \<open>Status.Digest\<close>, \<^verbatim>\<open>Handle\<close> resets
  the workload (\<^verbatim>\<open>Initialize\<close>), records the new digest and returns the workload without
  an error. The events of the pass are the digest computation, the log line and the
  reset: the Kit is not fetched, no trait is applied, and the returned object is the
  reset one with the digest and nothing else changed.
\<close>

theorem drift_resets_and_returns:
  assumes "CanHandle integration"
    and "IntegrationKit (Status integration) = Some ref"
    and "digest_ComputeForIntegration env integration = Inr hash"
    and "hash \<noteq> Digest (Status integration)"
  shows "Handle env integration =
           (let reset = Initialize env integration;
                rebuilt = reset\<lparr>Status := (Status reset)\<lparr>Digest := hash\<rparr>\<rparr>
            in \<lparr>returned = Inr rebuilt, object = rebuilt,
                events = [EvComputeForIntegration, EvInfo ''Integration needs a rebuild'',
                          EvInitialize]\<rparr>)"
  using assms
  by (simp add: Handle_def beforeHealth_def beforeMirror_def beforeReplicas_def beforeApply_def
      andThen_def checkRebuild_def succeed_def Let_def)

text \<open>The spec of the demo workload changes from \<open>v1\<close> to \<open>v2\<close>.\<close>

theorem drift_resets_and_returns_witness:
  "Handle (demoEnv (Inr demoPending) (Inr demoRunning) (Inr healthy))
          ((demoIntegration IntegrationPhaseRunning)\<lparr>Spec := ''v2''\<rparr>) =
     \<lparr>returned = Inr ((demoIntegration IntegrationPhaseInitialization)
                        \<lparr>Spec := ''v2'',
                         Status := (Status (demoIntegration IntegrationPhaseInitialization))
                                     \<lparr>Digest := ''v2''\<rparr>\<rparr>),
      object = (demoIntegration IntegrationPhaseInitialization)
                        \<lparr>Spec := ''v2'',
                         Status := (Status (demoIntegration IntegrationPhaseInitialization))
                                     \<lparr>Digest := ''v2''\<rparr>\<rparr>,
      events = [EvComputeForIntegration, EvInfo ''Integration needs a rebuild'', EvInitialize]\<rparr>"
  using drift_resets_and_returns
    [of "(demoIntegration IntegrationPhaseRunning)\<lparr>Spec := ''v2''\<rparr>"
        "\<lparr>RefNamespace = ''ns'', RefName = ''kit-a''\<rparr>"
        "demoEnv (Inr demoPending) (Inr demoRunning) (Inr healthy)" "''v2''"]
  by (simp add: CanHandle_def demoEnv_def demoIntegration_def Let_def)

subsection \<open>Kit selection\<close>

text \<open>
  The loop invariant of the selection: when every ready Kit of the rest of the list has
  a priority that parses, the loop ends either with the Kit it started with (no ready
  Kit beats the priority to beat) or with the first of the ready Kits of highest
  priority, which beats it.
\<close>

lemma findLoop_best:
  assumes "\<forall>k\<in>set ks. KitPhase k = IntegrationKitPhaseReady \<longrightarrow>
             (\<exists>p. Atoi (labelOf k IntegrationKitPriorityLabel) = Inr p)"
  shows "\<exists>r. findLoop ks kit pr = Inr r \<and>
     ((r = kit \<and> (\<forall>k\<in>set ks. KitPhase k = IntegrationKitPhaseReady \<longrightarrow> kitPriority k \<le> pr))
      \<or> (\<exists>j<length ks. r = Some (ks ! j) \<and> KitPhase (ks ! j) = IntegrationKitPhaseReady
            \<and> pr < kitPriority (ks ! j)
            \<and> (\<forall>m<length ks. KitPhase (ks ! m) = IntegrationKitPhaseReady \<longrightarrow>
                  kitPriority (ks ! m) \<le> kitPriority (ks ! j)
                  \<and> (m < j \<longrightarrow> kitPriority (ks ! m) < kitPriority (ks ! j)))))"
  using assms
proof (induction ks arbitrary: kit pr)
  case Nil
  then show ?case by simp
next
  case (Cons k ks)
  let ?R = "\<lambda>x. KitPhase x = IntegrationKitPhaseReady"
  let ?keeps = "\<lambda>r kit pr. r = kit \<and> (\<forall>x\<in>set ks. ?R x \<longrightarrow> kitPriority x \<le> pr)"
  let ?picks = "\<lambda>r pr j. j < length ks \<and> r = Some (ks ! j) \<and> ?R (ks ! j) \<and> pr < kitPriority (ks ! j)
            \<and> (\<forall>m<length ks. ?R (ks ! m) \<longrightarrow> kitPriority (ks ! m) \<le> kitPriority (ks ! j)
                  \<and> (m < j \<longrightarrow> kitPriority (ks ! m) < kitPriority (ks ! j)))"
  have parse: "\<forall>x\<in>set ks. ?R x \<longrightarrow> (\<exists>p. Atoi (labelOf x IntegrationKitPriorityLabel) = Inr p)"
    using Cons.prems by simp
  show ?case
  proof (cases "?R k")
    case False
    from Cons.IH[OF parse, of kit pr] obtain r where r: "findLoop ks kit pr = Inr r"
      and d: "?keeps r kit pr \<or> (\<exists>j. ?picks r pr j)"
      by blast
    from d show ?thesis
    proof
      assume "?keeps r kit pr"
      then show ?thesis using False r by simp
    next
      assume "\<exists>j. ?picks r pr j"
      then obtain j where j: "?picks r pr j" by blast
      then have "\<forall>m<length (k # ks). ?R ((k # ks) ! m) \<longrightarrow>
              kitPriority ((k # ks) ! m) \<le> kitPriority ((k # ks) ! Suc j)
              \<and> (m < Suc j \<longrightarrow> kitPriority ((k # ks) ! m) < kitPriority ((k # ks) ! Suc j))"
        using False by (simp add: All_less_Suc2)
      then show ?thesis using False r j
        by (intro exI[of _ r]) (auto intro!: exI[of _ "Suc j"])
    qed
  next
    case True
    then obtain p where p: "Atoi (labelOf k IntegrationKitPriorityLabel) = Inr p"
      using Cons.prems by auto
    then have kp: "kitPriority k = p" by (simp add: kitPriority_def)
    show ?thesis
    proof (cases "p > pr")
      case gt: True
      from Cons.IH[OF parse, of "Some k" p] obtain r where r: "findLoop ks (Some k) p = Inr r"
        and d: "?keeps r (Some k) p \<or> (\<exists>j. ?picks r p j)"
        by blast
      have fl: "findLoop (k # ks) kit pr = Inr r" using True p gt r by simp
      from d show ?thesis
      proof
        assume a: "?keeps r (Some k) p"
        then have "\<forall>m<length (k # ks). ?R ((k # ks) ! m) \<longrightarrow>
              kitPriority ((k # ks) ! m) \<le> kitPriority ((k # ks) ! 0)
              \<and> (m < 0 \<longrightarrow> kitPriority ((k # ks) ! m) < kitPriority ((k # ks) ! 0))"
          using kp by (simp add: All_less_Suc2)
        then show ?thesis using fl a True gt kp
          by (intro exI[of _ r]) (auto intro!: exI[of _ "0::nat"])
      next
        assume "\<exists>j. ?picks r p j"
        then obtain j where j: "?picks r p j" by blast
        then have "\<forall>m<length (k # ks). ?R ((k # ks) ! m) \<longrightarrow>
              kitPriority ((k # ks) ! m) \<le> kitPriority ((k # ks) ! Suc j)
              \<and> (m < Suc j \<longrightarrow> kitPriority ((k # ks) ! m) < kitPriority ((k # ks) ! Suc j))"
          using kp by (simp add: All_less_Suc2)
        then show ?thesis using fl j gt
          by (intro exI[of _ r]) (auto intro!: exI[of _ "Suc j"])
      qed
    next
      case le: False
      from Cons.IH[OF parse, of kit pr] obtain r where r: "findLoop ks kit pr = Inr r"
        and d: "?keeps r kit pr \<or> (\<exists>j. ?picks r pr j)"
        by blast
      have fl: "findLoop (k # ks) kit pr = Inr r" using True p le r by simp
      from d show ?thesis
      proof
        assume "?keeps r kit pr"
        then show ?thesis using fl le kp by auto
      next
        assume "\<exists>j. ?picks r pr j"
        then obtain j where j: "?picks r pr j" by blast
        then have "\<forall>m<length (k # ks). ?R ((k # ks) ! m) \<longrightarrow>
              kitPriority ((k # ks) ! m) \<le> kitPriority ((k # ks) ! Suc j)
              \<and> (m < Suc j \<longrightarrow> kitPriority ((k # ks) ! m) < kitPriority ((k # ks) ! Suc j))"
          using kp le by (simp add: All_less_Suc2)
        then show ?thesis using fl j
          by (intro exI[of _ r]) (auto intro!: exI[of _ "Suc j"])
      qed
    qed
  qed
qed

lemma findLoop_error:
  assumes "k \<in> set ks" "KitPhase k = IntegrationKitPhaseReady"
    "Atoi (labelOf k IntegrationKitPriorityLabel) = Inl e"
  shows "\<exists>err. findLoop ks kit pr = Inl err"
  using assms
  by (induction ks arbitrary: kit pr) (auto split: sum.splits)

lemma findLoop_skips_not_ready:
  "findLoop ks kit pr = findLoop (filter (\<lambda>k. KitPhase k = IntegrationKitPhaseReady) ks) kit pr"
  by (induction ks arbitrary: kit pr) (auto split: sum.splits)

text \<open>
  A priority that \<^verbatim>\<open>labels.NewRequirement\<close> accepts as the bound of the selector is a
  string of digits, so it parses to a number that is not negative.
\<close>

lemma digits_foldl_nonneg:
  "list_all isDigit ds \<Longrightarrow> 0 \<le> a \<Longrightarrow> 0 \<le> foldl (\<lambda>n ch. n * 10 + digitVal ch) a ds"
proof (induction ds arbitrary: a)
  case Nil
  then show ?case by simp
next
  case (Cons d ds)
  have "0 \<le> digitVal d" using Cons.prems(1) by (simp add: isDigit_def digitVal_def)
  then have "0 \<le> a * 10 + digitVal d" using Cons.prems(2) by simp
  then show ?case using Cons.IH Cons.prems(1) by simp
qed

lemma alnum_not_sign: "isAlnum c \<Longrightarrow> c \<noteq> CHR ''-'' \<and> c \<noteq> CHR ''+''"
  by (auto simp: isAlnum_def isDigit_def)

lemma NewRequirement_nonneg:
  assumes "NewRequirement v = Inr bound"
  shows "bound = v \<and> (\<exists>b. Atoi v = Inr b \<and> 0 \<le> b)"
proof -
  from assms obtain n where n: "Atoi v = Inr n" and valid: "validateLabelValue v" and bv: "bound = v"
    by (auto simp: NewRequirement_def split: sum.splits if_splits)
  have ne: "v \<noteq> []" using n by (auto simp: Atoi_def)
  then have "isAlnum (hd v)" using valid by (simp add: validateLabelValue_def)
  then have nosign: "hd v \<noteq> CHR ''-''" "hd v \<noteq> CHR ''+''" using alnum_not_sign by auto
  have digits: "list_all isDigit v" and val: "n = digitsVal v"
    using n ne nosign by (auto simp: Atoi_def Let_def split: if_splits)
  have "0 \<le> digitsVal v" unfolding digitsVal_def using digits_foldl_nonneg[OF digits] by simp
  then show ?thesis using n val bv by simp
qed

text \<open>
  Claim C4. A pass arrives at the selection with the Kit \<open>kit\<close> of the bound reference
  fetched, its priority label (\<open>0\<close> when absent) accepted as the bound of the selector,
  and the candidates \<open>kits\<close> that the lookup returned for that bound. When every
  candidate carries a priority label that parses to a number strictly greater than the
  bound Kit's priority, the selection returns, without an error, the ready candidate of
  strictly highest priority, the first-seen one where several share it, and the bound
  Kit reference of the workload is set to that Kit before the traits run; when no
  candidate is ready it returns none, and the workload is not rebound.
\<close>

theorem selection_picks_highest_ready:
  assumes "IntegrationKit (Status integration) = Some ref"
    and "digest_ComputeForIntegration env integration = Inr (Digest (Status integration))"
    and "kubernetes_GetIntegrationKit env (RefName ref) (RefNamespace ref) = Inr kit"
    and "priority = (case KitLabels kit IntegrationKitPriorityLabel of Some v \<Rightarrow> v | None \<Rightarrow> ''0'')"
    and "NewRequirement priority = Inr bound"
    and "Atoi priority = Inr b"
    and "lookupKitsForIntegration env integration bound = Inr kits"
    and "\<forall>k\<in>set kits. \<exists>p. Atoi (labelOf k IntegrationKitPriorityLabel) = Inr p \<and> b < p"
  shows "\<exists>sel rebound.
           findHighestPriorityReadyKit kits = Inr sel \<and>
           beforeApply env integration =
             Inr (rebound, kit,
                  [EvComputeForIntegration,
                   EvGetIntegrationKit (RefName ref) (RefNamespace ref), EvLookupKits bound]) \<and>
           (case sel of
              None \<Rightarrow> (\<forall>k\<in>set kits. KitPhase k \<noteq> IntegrationKitPhaseReady) \<and> rebound = integration
            | Some k \<Rightarrow> (\<exists>j. isHighestReady kits j \<and> k = kits ! j) \<and>
                rebound = SetIntegrationKit k integration \<and>
                IntegrationKit (Status rebound) =
                  Some \<lparr>RefNamespace = KitNamespace k, RefName = KitName k\<rparr>)"
proof -
  let ?R = "\<lambda>x. KitPhase x = IntegrationKitPhaseReady"
  from NewRequirement_nonneg[OF assms(5)] assms(6) have b0: "0 \<le> b" and bv: "bound = priority" by auto
  have parse: "\<forall>k\<in>set kits. ?R k \<longrightarrow> (\<exists>p. Atoi (labelOf k IntegrationKitPriorityLabel) = Inr p)"
    using assms(8) by blast
  have pos: "\<forall>k\<in>set kits. 0 < kitPriority k"
    using assms(8) b0 by (fastforce simp: kitPriority_def)
  from findLoop_best[OF parse, of None 0] obtain r where r: "findLoop kits None 0 = Inr r"
    and d: "(r = None \<and> (\<forall>k\<in>set kits. ?R k \<longrightarrow> kitPriority k \<le> 0))
      \<or> (\<exists>j<length kits. r = Some (kits ! j) \<and> ?R (kits ! j) \<and> 0 < kitPriority (kits ! j)
            \<and> (\<forall>m<length kits. ?R (kits ! m) \<longrightarrow> kitPriority (kits ! m) \<le> kitPriority (kits ! j)
                  \<and> (m < j \<longrightarrow> kitPriority (kits ! m) < kitPriority (kits ! j))))"
    by blast
  have sel: "findHighestPriorityReadyKit kits = Inr r"
    using r by (cases kits) (auto simp: findHighestPriorityReadyKit_def)
  have reach: "beforeApply env integration =
      Inr ((case r of None \<Rightarrow> integration | Some k \<Rightarrow> SetIntegrationKit k integration), kit,
           [EvComputeForIntegration, EvGetIntegrationKit (RefName ref) (RefNamespace ref),
            EvLookupKits bound])"
    using assms(1-3,5,7) sel assms(4)[symmetric]
    by (simp add: beforeApply_def andThen_def checkRebuild_def upgradeKit_def Let_def)
  from d show ?thesis
  proof
    assume a: "r = None \<and> (\<forall>k\<in>set kits. ?R k \<longrightarrow> kitPriority k \<le> 0)"
    then have none: "\<forall>k\<in>set kits. \<not> ?R k" using pos by fastforce
    have r1: "findHighestPriorityReadyKit kits = Inr None" using sel a by simp
    have r2: "beforeApply env integration =
      Inr (integration, kit,
           [EvComputeForIntegration, EvGetIntegrationKit (RefName ref) (RefNamespace ref),
            EvLookupKits bound])" using reach a by simp
    show ?thesis
      apply (rule exI[of _ None])
      apply (rule exI[of _ integration])
      using r1 r2 none by simp
  next
    assume "\<exists>j<length kits. r = Some (kits ! j) \<and> ?R (kits ! j) \<and> 0 < kitPriority (kits ! j)
            \<and> (\<forall>m<length kits. ?R (kits ! m) \<longrightarrow> kitPriority (kits ! m) \<le> kitPriority (kits ! j)
                  \<and> (m < j \<longrightarrow> kitPriority (kits ! m) < kitPriority (kits ! j)))"
    then obtain j where j: "r = Some (kits ! j)" and best: "isHighestReady kits j"
      by (auto simp: isHighestReady_def)
    have r1: "findHighestPriorityReadyKit kits = Inr (Some (kits ! j))" using sel j by simp
    have r2: "beforeApply env integration =
      Inr (SetIntegrationKit (kits ! j) integration, kit,
           [EvComputeForIntegration, EvGetIntegrationKit (RefName ref) (RefNamespace ref),
            EvLookupKits bound])" using reach j by simp
    have r3: "IntegrationKit (Status (SetIntegrationKit (kits ! j) integration)) =
        Some \<lparr>RefNamespace = KitNamespace (kits ! j), RefName = KitName (kits ! j)\<rparr>"
      by (simp add: SetIntegrationKit_def)
    have r4: "\<exists>i. isHighestReady kits i \<and> kits ! j = kits ! i" using best by blast
    show ?thesis
      apply (rule exI[of _ "Some (kits ! j)"])
      apply (rule exI[of _ "SetIntegrationKit (kits ! j) integration"])
      using r1 r2 r3 r4 by simp
  qed
qed

text \<open>
  In the demo cluster \<open>kit-a\<close> (priority 1) is bound; of the candidates \<open>kit-d\<close> (9) is
  still building, \<open>kit-b\<close> and \<open>kit-c\<close> (both 5) are ready: \<open>kit-b\<close>, seen first, is chosen.
\<close>

theorem selection_picks_highest_ready_witness:
  "findHighestPriorityReadyKit [kitD, kitB, kitC] = Inr (Some kitB) \<and>
   beforeApply (demoEnv (Inr demoPending) (Inr demoRunning) (Inr healthy))
               (demoIntegration IntegrationPhaseRunning) =
     Inr (SetIntegrationKit kitB (demoIntegration IntegrationPhaseRunning), kitA,
          [EvComputeForIntegration, EvGetIntegrationKit ''kit-a'' ''ns'', EvLookupKits ''1''])"
proof -
  let ?env = "demoEnv (Inr demoPending) (Inr demoRunning) (Inr healthy)"
  let ?i = "demoIntegration IntegrationPhaseRunning"
  let ?ref = "\<lparr>RefNamespace = ''ns'', RefName = ''kit-a''\<rparr>"
  have h1: "IntegrationKit (Status ?i) = Some ?ref" by (simp add: demoIntegration_def)
  have h2: "digest_ComputeForIntegration ?env ?i = Inr (Digest (Status ?i))"
    by (simp add: demoEnv_def demoIntegration_def)
  have h3: "kubernetes_GetIntegrationKit ?env (RefName ?ref) (RefNamespace ?ref) = Inr kitA"
    by (simp add: demoEnv_def)
  have h4: "''1'' = (case KitLabels kitA IntegrationKitPriorityLabel of Some v \<Rightarrow> v | None \<Rightarrow> ''0'')"
    by (simp add: kitA_def mkKit_def)
  have h5: "NewRequirement ''1'' = Inr ''1''" by (simp add: aux_defs)
  have h6: "Atoi ''1'' = Inr 1" by (simp add: aux_defs)
  have h7: "lookupKitsForIntegration ?env ?i ''1'' = Inr [kitD, kitB, kitC]"
    by (simp add: demoEnv_def)
  have h8: "\<forall>k\<in>set [kitD, kitB, kitC].
              \<exists>p. Atoi (labelOf k IntegrationKitPriorityLabel) = Inr p \<and> 1 < p"
    by (simp add: demo_defs aux_defs)
  have found: "findHighestPriorityReadyKit [kitD, kitB, kitC] = Inr (Some kitB)"
    by (simp add: demo_defs aux_defs)
  from selection_picks_highest_ready[OF h1 h2 h3 h4 h5 h6 h7 h8] found
  show ?thesis by auto
qed

text \<open>
  Claim C6, as stated, fails: a candidate whose priority label does not parse makes the
  selection return an error only if that candidate is ready. Line 234 skips a Kit that
  is not ready before line 237 parses its label: with \<open>kit-x\<close> (no label, building)
  ahead of \<open>kit-b\<close>, the selection returns \<open>kit-b\<close> and no error.
\<close>

theorem malformed_not_ready_is_skipped:
  "Atoi (labelOf kitUnlabelled IntegrationKitPriorityLabel) = Inl (NumError []) \<and>
   findHighestPriorityReadyKit [kitUnlabelled, kitB] = Inr (Some kitB)"
  by (simp add: demo_defs aux_defs)

text \<open>
  Claim C6, amended. For every list of candidate Kits containing at least one ready Kit
  whose priority label does not parse as an integer (an absent label included), the
  selection returns an error; candidates that are not ready are skipped whatever their
  label, so the selection over a list is the selection over its ready Kits.
\<close>

theorem malformed_ready_priority_aborts:
  assumes "k \<in> set kits"
    and "KitPhase k = IntegrationKitPhaseReady"
    and "Atoi (labelOf k IntegrationKitPriorityLabel) = Inl e"
  shows "(\<exists>err. findHighestPriorityReadyKit kits = Inl err) \<and>
         findHighestPriorityReadyKit kits =
           findHighestPriorityReadyKit (filter (\<lambda>c. KitPhase c = IntegrationKitPhaseReady) kits)"
proof -
  have ne: "kits \<noteq> []" using assms(1) by auto
  have ne': "filter (\<lambda>c. KitPhase c = IntegrationKitPhaseReady) kits \<noteq> []"
    using assms(1,2) by (auto simp: filter_empty_conv)
  show ?thesis
    using findLoop_error[OF assms, of None 0] findLoop_skips_not_ready[of kits None 0] ne ne'
    by (simp add: findHighestPriorityReadyKit_def)
qed

theorem malformed_ready_priority_aborts_witness:
  "findHighestPriorityReadyKit [kitB, kitMalformed] = Inl (NumError ''high'')"
  using malformed_ready_priority_aborts[of kitMalformed "[kitB, kitMalformed]" "NumError ''high''"]
  by (simp add: demo_defs aux_defs)

subsection \<open>The steps of a pass and their events\<close>

text \<open>
  What each step adds to the events: only the call of \<^verbatim>\<open>trait.Apply\<close> adds a trait
  application, and none of the steps around the mirroring adds an observation.
\<close>

lemma traitApplications_append:
  "traitApplications (xs @ ys) = traitApplications xs @ traitApplications ys"
  by (induction xs rule: traitApplications.induct) simp_all


lemma Handle_returned_early:
  "beforeApply env integration = Inl r \<Longrightarrow> Handle env integration = r"
  "beforeReplicas env integration = Inl r \<Longrightarrow> Handle env integration = r"
  "beforeMirror env integration = Inl r \<Longrightarrow> Handle env integration = r"
  by (simp_all add: Handle_def beforeHealth_def beforeMirror_def beforeReplicas_def andThen_def)

lemma Handle_from_mirror:
  "beforeMirror env integration = Inr s \<Longrightarrow>
     Handle env integration = deploymentHealth env (mirrorReady env s)"
  by (simp add: Handle_def beforeHealth_def andThen_def)

lemma beforeApply_early:
  assumes "beforeApply env integration = Inl r"
  shows "traitApplications (events r) = [] \<and> observations (events r) = [] \<and>
         (\<forall>err. returned r = Inl err \<longrightarrow> object r = integration)"
  using assms
  by (auto simp: beforeApply_def andThen_def checkRebuild_def upgradeKit_def failWith_def
      succeed_def Let_def split: option.splits sum.splits if_splits)

lemma beforeApply_reached:
  assumes "beforeApply env integration = Inr (rebound, kit, evs)"
  shows "traitApplications evs = [] \<and> observations evs = []"
  using assms
  by (auto simp: beforeApply_def andThen_def checkRebuild_def upgradeKit_def failWith_def
      succeed_def Let_def split: option.splits sum.splits if_splits)

lemma applyTraits_events:
  "applyTraits env (i, kit, evs) = Inl r \<Longrightarrow>
     events r = evs @ [EvTraitApply i kit] \<and> returned r = Inl (the (snd (trait_Apply env i kit)))
     \<and> object r = fst (trait_Apply env i kit) \<and> snd (trait_Apply env i kit) \<noteq> None"
  "applyTraits env (i, kit, evs) = Inr (i1, evs1) \<Longrightarrow>
     evs1 = evs @ [EvTraitApply i kit] \<and> i1 = fst (trait_Apply env i kit)
     \<and> snd (trait_Apply env i kit) = None"
  by (auto simp: applyTraits_def failWith_def Let_def split: prod.splits option.splits)

lemma accountReplicas_events:
  "accountReplicas env (i, evs) = Inl r \<Longrightarrow>
     (\<exists>new. events r = evs @ new \<and> traitApplications new = [] \<and> observations new = [])"
  "accountReplicas env (i, evs) = Inr (i1, evs1) \<Longrightarrow>
     (\<exists>new. evs1 = evs @ new \<and> traitApplications new = [] \<and> observations new = [])"
  by (auto simp: accountReplicas_def failWith_def Let_def split: sum.splits)

lemma mirrorReady_traits:
  "traitApplications (snd (mirrorReady env (i, evs))) = traitApplications evs"
  by (simp add: mirrorReady_def Let_def traitApplications_append split: option.splits)

lemma deploymentHealth_events:
  "\<exists>new. events (deploymentHealth env (i, evs)) = evs @ new \<and> traitApplications new = []
         \<and> observations new = []"
  by (simp add: deploymentHealth_def succeed_def failWith_def Let_def
      split: sum.splits IntegrationPhase.splits prod.splits)

lemma after_replicas_traits:
  assumes "beforeReplicas env integration = Inr (i, evs)"
  shows "traitApplications (events (Handle env integration)) = traitApplications evs"
proof (cases "accountReplicas env (i, evs)")
  case (Inl r)
  then have "Handle env integration = r"
    using assms Handle_returned_early(3)[of env integration r] by (simp add: beforeMirror_def andThen_def)
  then show ?thesis using accountReplicas_events(1)[OF Inl] by (auto simp: traitApplications_append)
next
  case (Inr s)
  obtain i1 evs1 where s: "s = (i1, evs1)" by (cases s)
  have bm: "beforeMirror env integration = Inr (i1, evs1)"
    using assms Inr s by (simp add: beforeMirror_def andThen_def)
  obtain i2 evs2 where m: "mirrorReady env (i1, evs1) = (i2, evs2)" by (cases "mirrorReady env (i1, evs1)")
  have t2: "traitApplications evs2 = traitApplications evs1"
    using mirrorReady_traits[of env i1 evs1] m by simp
  have t1: "traitApplications evs1 = traitApplications evs"
    using accountReplicas_events(2)[of env i evs i1 evs1] Inr s by (auto simp: traitApplications_append)
  have "Handle env integration = deploymentHealth env (i2, evs2)"
    using Handle_from_mirror[OF bm] m by simp
  then show ?thesis using deploymentHealth_events[of env i2 evs2] t1 t2
    by (auto simp: traitApplications_append)
qed

lemma Handle_trait_applications:
  assumes "beforeApply env integration = Inr (rebound, kit, evs)"
  shows "traitApplications (events (Handle env integration)) = [(rebound, kit)]"
proof (cases "applyTraits env (rebound, kit, evs)")
  case (Inl r)
  then have "Handle env integration = r"
    using assms Handle_returned_early(2)[of env integration r] by (simp add: beforeReplicas_def andThen_def)
  then show ?thesis using applyTraits_events(1)[OF Inl] beforeApply_reached[OF assms]
    by (simp add: traitApplications_append)
next
  case (Inr s)
  obtain i1 evs1 where s: "s = (i1, evs1)" by (cases s)
  have br: "beforeReplicas env integration = Inr (i1, evs1)"
    using assms Inr s by (simp add: beforeReplicas_def andThen_def)
  show ?thesis using after_replicas_traits[OF br] applyTraits_events(2)[of env rebound kit evs i1 evs1]
      Inr s beforeApply_reached[OF assms]
    by (simp add: traitApplications_append)
qed

subsection \<open>Trait application\<close>

text \<open>
  Claim C5, as stated, fails: line 107 passes the variable \<^verbatim>\<open>kit\<close>, the Kit fetched for
  the reference that was bound when the pass began, not \<^verbatim>\<open>priorityReadyKit\<close>. In the demo
  cluster the selection finds \<open>kit-b\<close> and the workload is rebound to it, and the traits
  then run with that rebound workload and with \<open>kit-a\<close>.
\<close>

theorem traits_run_with_previous_kit:
  "findHighestPriorityReadyKit [kitD, kitB, kitC] = Inr (Some kitB) \<and>
   traitApplications (events (Handle (demoEnv (Inr demoPending) (Inr demoRunning) (Inr healthy))
                                     (demoIntegration IntegrationPhaseRunning))) =
     [(SetIntegrationKit kitB (demoIntegration IntegrationPhaseRunning), kitA)] \<and>
   kitA \<noteq> kitB"
  by (simp add: demo_defs step_defs aux_defs Let_def)

text \<open>
  Claim C5, amended. In every pass in which a ready Kit of higher priority was found,
  \<^verbatim>\<open>trait.Apply\<close> is called once, with the workload already rebound to the upgraded Kit
  (its bound Kit reference names it) and, as its Kit argument, with the Kit fetched for
  the previous binding; an error it returns is returned by \<^verbatim>\<open>Handle\<close> as it is.
\<close>

theorem traits_run_with_fetched_kit:
  assumes "IntegrationKit (Status integration) = Some ref"
    and "digest_ComputeForIntegration env integration = Inr (Digest (Status integration))"
    and "kubernetes_GetIntegrationKit env (RefName ref) (RefNamespace ref) = Inr kit"
    and "NewRequirement (case KitLabels kit IntegrationKitPriorityLabel of Some v \<Rightarrow> v | None \<Rightarrow> ''0'')
           = Inr bound"
    and "lookupKitsForIntegration env integration bound = Inr kits"
    and "findHighestPriorityReadyKit kits = Inr (Some upgraded)"
  shows "traitApplications (events (Handle env integration)) =
           [(SetIntegrationKit upgraded integration, kit)] \<and>
         IntegrationKit (Status (SetIntegrationKit upgraded integration)) =
           Some \<lparr>RefNamespace = KitNamespace upgraded, RefName = KitName upgraded\<rparr> \<and>
         (\<forall>err. snd (trait_Apply env (SetIntegrationKit upgraded integration) kit) = Some err \<longrightarrow>
                returned (Handle env integration) = Inl err)"
proof -
  have reach: "beforeApply env integration =
      Inr (SetIntegrationKit upgraded integration, kit,
           [EvComputeForIntegration, EvGetIntegrationKit (RefName ref) (RefNamespace ref),
            EvLookupKits bound])"
    using assms by (simp add: beforeApply_def andThen_def checkRebuild_def upgradeKit_def Let_def)
  have errs: "returned (Handle env integration) = Inl err"
    if failed: "snd (trait_Apply env (SetIntegrationKit upgraded integration) kit) = Some err" for err
  proof -
    obtain i1 where "trait_Apply env (SetIntegrationKit upgraded integration) kit = (i1, Some err)"
      using failed by (cases "trait_Apply env (SetIntegrationKit upgraded integration) kit") auto
    then have "beforeReplicas env integration =
        Inl (failWith err i1 ([EvComputeForIntegration,
           EvGetIntegrationKit (RefName ref) (RefNamespace ref), EvLookupKits bound]
           @ [EvTraitApply (SetIntegrationKit upgraded integration) kit]))"
      using reach by (simp add: beforeReplicas_def andThen_def applyTraits_def Let_def)
    from Handle_returned_early(2)[OF this] show ?thesis by (simp add: failWith_def)
  qed
  show ?thesis using Handle_trait_applications[OF reach] errs
    by (simp add: SetIntegrationKit_def)
qed

text \<open>The demo cluster again, with traits that fail.\<close>

theorem traits_run_with_fetched_kit_witness:
  "traitApplications (events (Handle
      ((demoEnv (Inr demoPending) (Inr demoRunning) (Inr healthy))
         \<lparr>trait_Apply := (\<lambda>i k. (i, Some (ErrCollaborator ''trait failed'')))\<rparr>)
      (demoIntegration IntegrationPhaseRunning))) =
     [(SetIntegrationKit kitB (demoIntegration IntegrationPhaseRunning), kitA)] \<and>
   returned (Handle
      ((demoEnv (Inr demoPending) (Inr demoRunning) (Inr healthy))
         \<lparr>trait_Apply := (\<lambda>i k. (i, Some (ErrCollaborator ''trait failed'')))\<rparr>)
      (demoIntegration IntegrationPhaseRunning)) = Inl (ErrCollaborator ''trait failed'')"
proof -
  let ?env = "(demoEnv (Inr demoPending) (Inr demoRunning) (Inr healthy))
         \<lparr>trait_Apply := (\<lambda>i k. (i, Some (ErrCollaborator ''trait failed'')))\<rparr>"
  let ?i = "demoIntegration IntegrationPhaseRunning"
  let ?ref = "\<lparr>RefNamespace = ''ns'', RefName = ''kit-a''\<rparr>"
  have h1: "IntegrationKit (Status ?i) = Some ?ref" by (simp add: demoIntegration_def)
  have h2: "digest_ComputeForIntegration ?env ?i = Inr (Digest (Status ?i))"
    by (simp add: demoEnv_def demoIntegration_def)
  have h3: "kubernetes_GetIntegrationKit ?env (RefName ?ref) (RefNamespace ?ref) = Inr kitA"
    by (simp add: demoEnv_def)
  have h4: "NewRequirement (case KitLabels kitA IntegrationKitPriorityLabel of
                              Some v \<Rightarrow> v | None \<Rightarrow> ''0'') = Inr ''1''"
    by (simp add: kitA_def mkKit_def aux_defs)
  have h5: "lookupKitsForIntegration ?env ?i ''1'' = Inr [kitD, kitB, kitC]"
    by (simp add: demoEnv_def)
  have h6: "findHighestPriorityReadyKit [kitD, kitB, kitC] = Inr (Some kitB)"
    by (simp add: demo_defs aux_defs)
  have h7: "snd (trait_Apply ?env (SetIntegrationKit kitB ?i) kitA) = Some (ErrCollaborator ''trait failed'')"
    by (simp add: demoEnv_def)
  from traits_run_with_fetched_kit[OF h1 h2 h3 h4 h5 h6] h7 show ?thesis by blast
qed

subsection \<open>Replica accounting\<close>

text \<open>
  The count the loop makes, and what the later steps leave alone: the mirroring and the
  check of the deployment write conditions and the phase only.
\<close>

lemma nonTerminatingLoop_count:
  "nonTerminatingLoop pods n = n + length (filter (\<lambda>pod. DeletionTimestamp pod = None) pods)"
  by (induction pods arbitrary: n) auto

lemma mirrorReady_object:
  "fst (mirrorReady env (i, evs)) =
     i\<lparr>Status := (Status i)\<lparr>Conditions := kubernetes_MirrorReadyCondition env i\<rparr>\<rparr>"
  by (simp add: mirrorReady_def Let_def split: option.splits)

lemma deploymentHealth_frame:
  "Replicas (Status (object (deploymentHealth env (i, evs)))) = Replicas (Status i) \<and>
   Selector (Status (object (deploymentHealth env (i, evs)))) = Selector (Status i) \<and>
   IntegrationKit (Status (object (deploymentHealth env (i, evs)))) = IntegrationKit (Status i)"
  by (simp add: deploymentHealth_def succeed_def failWith_def SetConditions_def Let_def
      split: sum.splits IntegrationPhase.splits prod.splits)

lemma Handle_replicas:
  assumes "beforeReplicas env integration = Inr (i, evs)"
    and "client_List env (Namespace i) (Name i) PodPending = Inr pendingPods"
    and "client_List env (Namespace i) (Name i) PodRunning = Inr runningPods"
  shows "Replicas (Status (object (Handle env integration))) =
           Some (word_of_nat (length pendingPods + nonTerminatingLoop runningPods 0))"
proof -
  obtain i1 evs1 where acc: "accountReplicas env (i, evs) = Inr (i1, evs1)"
    and rep: "Replicas (Status i1) = Some (word_of_nat (length pendingPods + nonTerminatingLoop runningPods 0))"
    using assms(2,3) by (simp add: accountReplicas_def Let_def)
  have bm: "beforeMirror env integration = Inr (i1, evs1)"
    using assms(1) acc by (simp add: beforeMirror_def andThen_def)
  obtain i2 evs2 where m: "mirrorReady env (i1, evs1) = (i2, evs2)"
    by (cases "mirrorReady env (i1, evs1)")
  have "Replicas (Status i2) = Replicas (Status i1)"
    using mirrorReady_object[of env i1 evs1] m by simp
  moreover have "Handle env integration = deploymentHealth env (i2, evs2)"
    using Handle_from_mirror[OF bm] m by simp
  ultimately show ?thesis using deploymentHealth_frame[of env i2 evs2] rep by simp
qed

text \<open>
  In the demo cluster every pass arrives at the replica count rebound to \<open>kit-b\<close>,
  after one trait application.
\<close>

lemma demo_beforeReplicas:
  "beforeReplicas (demoEnv pending running deployment) (demoIntegration phase) =
     Inr (SetIntegrationKit kitB (demoIntegration phase),
          [EvComputeForIntegration, EvGetIntegrationKit ''kit-a'' ''ns'', EvLookupKits ''1'',
           EvTraitApply (SetIntegrationKit kitB (demoIntegration phase)) kitA])"
  by (simp add: demo_defs aux_defs beforeReplicas_def beforeApply_def andThen_def checkRebuild_def
      upgradeKit_def applyTraits_def Let_def)

text \<open>
  Claim C9. For the pod lists a pass receives for phase Pending and phase Running, the
  replica count that \<^verbatim>\<open>Handle\<close> leaves in \<open>Status.Replicas\<close> is the number of pending pods
  plus the number of running pods whose deletion timestamp is unset. It is stored as an
  \<^verbatim>\<open>int32\<close>: the conversion of that number, which reads back as the number itself
  whenever it is below \<open>2 ^ 31\<close>.
\<close>

theorem replicas_are_pending_plus_live_running:
  assumes "beforeReplicas env integration = Inr (i, evs)"
    and "client_List env (Namespace i) (Name i) PodPending = Inr pendingPods"
    and "client_List env (Namespace i) (Name i) PodRunning = Inr runningPods"
    and "n = length pendingPods + length (filter (\<lambda>pod. DeletionTimestamp pod = None) runningPods)"
  shows "\<exists>podCount. Replicas (Status (object (Handle env integration))) = Some podCount \<and>
           podCount = word_of_nat n \<and> (n < 2 ^ 31 \<longrightarrow> sint podCount = int n)"
proof -
  have "sint (word_of_nat n :: 32 word) = int n" if "n < 2 ^ 31"
  proof -
    have "- (2 ^ 31) \<le> int n" by (rule order_trans[of _ 0]) simp_all
    moreover have "int n < 2 ^ 31" using that by (simp flip: of_nat_less_iff)
    ultimately show ?thesis
      by (simp add: signed_of_nat signed_take_bit_int_eq_self)
  qed
  then show ?thesis
    using Handle_replicas[OF assms(1-3)] assms(4) by (simp add: nonTerminatingLoop_count)
qed

text \<open>
  Two pending pods, three running pods without a deletion timestamp and two running
  pods with one: the count is 5.
\<close>

theorem replicas_are_pending_plus_live_running_witness:
  "Replicas (Status (object (Handle (demoEnv (Inr demoPending) (Inr demoRunning) (Inr healthy))
                                    (demoIntegration IntegrationPhaseDeploying)))) = Some 5 \<and>
   length demoPending = 2 \<and>
   length (filter (\<lambda>pod. DeletionTimestamp pod = None) demoRunning) = 3 \<and>
   length (filter (\<lambda>pod. DeletionTimestamp pod \<noteq> None) demoRunning) = 2"
proof -
  let ?env = "demoEnv (Inr demoPending) (Inr demoRunning) (Inr healthy)"
  let ?i = "SetIntegrationKit kitB (demoIntegration IntegrationPhaseDeploying)"
  have p: "client_List ?env (Namespace ?i) (Name ?i) PodPending = Inr demoPending"
    and r: "client_List ?env (Namespace ?i) (Name ?i) PodRunning = Inr demoRunning"
    by (simp_all add: demoEnv_def)
  have n: "(5::nat) = length demoPending
             + length (filter (\<lambda>pod. DeletionTimestamp pod = None) demoRunning)"
    by (simp add: demoPending_def demoRunning_def mkPod_def)
  have counts: "length demoPending = 2"
    "length (filter (\<lambda>pod. DeletionTimestamp pod = None) demoRunning) = 3"
    "length (filter (\<lambda>pod. DeletionTimestamp pod \<noteq> None) demoRunning) = 2"
    by (simp_all add: demoPending_def demoRunning_def mkPod_def)
  from replicas_are_pending_plus_live_running[OF demo_beforeReplicas p r n] counts
  show ?thesis by simp
qed

text \<open>
  Claim C10. Pending pods are counted unconditionally: the replica count is the number
  of pending pods with a deletion timestamp, plus the number of pending pods without
  one, plus the number of running pods without one. Only running pods are left out for
  a deletion timestamp.
\<close>

theorem pending_pods_count_unconditionally:
  assumes "beforeReplicas env integration = Inr (i, evs)"
    and "client_List env (Namespace i) (Name i) PodPending = Inr pendingPods"
    and "client_List env (Namespace i) (Name i) PodRunning = Inr runningPods"
  shows "Replicas (Status (object (Handle env integration))) =
           Some (word_of_nat
             (length (filter (\<lambda>pod. DeletionTimestamp pod \<noteq> None) pendingPods)
              + length (filter (\<lambda>pod. DeletionTimestamp pod = None) pendingPods)
              + length (filter (\<lambda>pod. DeletionTimestamp pod = None) runningPods)))"
proof -
  have "length (filter (\<lambda>pod. DeletionTimestamp pod \<noteq> None) pendingPods)
        + length (filter (\<lambda>pod. DeletionTimestamp pod = None) pendingPods) = length pendingPods"
    using sum_length_filter_compl[of "\<lambda>pod. DeletionTimestamp pod \<noteq> None" pendingPods] by simp
  then show ?thesis
    using Handle_replicas[OF assms] by (simp add: nonTerminatingLoop_count)
qed

text \<open>A single pending pod that is already terminating, no running pod: the count is 1.\<close>

theorem pending_pods_count_unconditionally_witness:
  "Replicas (Status (object (Handle (demoEnv (Inr [mkPod ''p1'' (Some 470)]) (Inr []) (Inr healthy))
                                    (demoIntegration IntegrationPhaseRunning)))) = Some 1"
proof -
  let ?env = "demoEnv (Inr [mkPod ''p1'' (Some 470)]) (Inr []) (Inr healthy)"
  let ?i = "SetIntegrationKit kitB (demoIntegration IntegrationPhaseRunning)"
  have p: "client_List ?env (Namespace ?i) (Name ?i) PodPending = Inr [mkPod ''p1'' (Some 470)]"
    and r: "client_List ?env (Namespace ?i) (Name ?i) PodRunning = Inr []"
    by (simp_all add: demoEnv_def)
  from pending_pods_count_unconditionally[OF demo_beforeReplicas p r]
  show ?thesis by (simp add: mkPod_def)
qed

subsection \<open>The check of the deployment\<close>

text \<open>
  Each loop keeps, for a condition type, what the last condition of that type says; a
  flag stays as it was when the deployment has no condition of the type.
\<close>

lemma runningLoop_keeps:
  "\<forall>c\<in>set cs. DType c \<noteq> DeploymentAvailable \<Longrightarrow> fst (runningLoop d cs du pf) = du"
  "\<forall>c\<in>set cs. DType c \<noteq> DeploymentProgressing \<Longrightarrow> snd (runningLoop d cs du pf) = pf"
  by (induction cs arbitrary: du pf) auto

lemma runningLoop_unavailable:
  assumes "\<exists>c\<in>set cs. DType c = DeploymentAvailable"
    and "\<forall>c\<in>set cs. DType c = DeploymentAvailable \<longrightarrow> DStatus c = ConditionFalse"
  shows "fst (runningLoop d cs du pf)"
  using assms
proof (induction cs arbitrary: du pf)
  case Nil
  then show ?case by simp
next
  case (Cons c cs)
  show ?case
  proof (cases "\<exists>x\<in>set cs. DType x = DeploymentAvailable")
    case True
    then show ?thesis using Cons.IH Cons.prems(2) by simp
  next
    case False
    then have "DType c = DeploymentAvailable" "DStatus c = ConditionFalse"
      using Cons.prems by auto
    then show ?thesis using False runningLoop_keeps(1)[of cs] by simp
  qed
qed

lemma runningLoop_failing:
  assumes "\<exists>c\<in>set cs. DType c = DeploymentProgressing"
    and "\<forall>c\<in>set cs. DType c = DeploymentProgressing \<longrightarrow>
           DStatus c = ConditionTrue \<and> DReason c = ''NewReplicaSetAvailable''"
    and "sint (AvailableReplicas d) < 1"
  shows "snd (runningLoop d cs du pf)"
  using assms
proof (induction cs arbitrary: du pf)
  case Nil
  then show ?case by simp
next
  case (Cons c cs)
  show ?case
  proof (cases "\<exists>x\<in>set cs. DType x = DeploymentProgressing")
    case True
    then show ?thesis using Cons.IH Cons.prems(2,3) by simp
  next
    case False
    then have "DType c = DeploymentProgressing" "DStatus c = ConditionTrue"
      "DReason c = ''NewReplicaSetAvailable''"
      using Cons.prems by auto
    then show ?thesis using False Cons.prems(3) runningLoop_keeps(2)[of cs] by simp
  qed
qed

lemma errorLoop_keeps:
  "\<forall>c\<in>set cs. DType c \<noteq> DeploymentAvailable \<Longrightarrow> fst (errorLoop cs da pk) = da"
  "\<forall>c\<in>set cs. DType c \<noteq> DeploymentProgressing \<Longrightarrow> snd (errorLoop cs da pk) = pk"
  by (induction cs arbitrary: da pk) auto

lemma errorLoop_available:
  assumes "\<exists>c\<in>set cs. DType c = DeploymentAvailable"
    and "\<forall>c\<in>set cs. DType c = DeploymentAvailable \<longrightarrow> DStatus c = ConditionTrue"
  shows "fst (errorLoop cs da pk)"
  using assms
proof (induction cs arbitrary: da pk)
  case Nil
  then show ?case by simp
next
  case (Cons c cs)
  show ?case
  proof (cases "\<exists>x\<in>set cs. DType x = DeploymentAvailable")
    case True
    then show ?thesis using Cons.IH Cons.prems(2) by simp
  next
    case False
    then have "DType c = DeploymentAvailable" "DStatus c = ConditionTrue"
      using Cons.prems by auto
    then show ?thesis using False errorLoop_keeps(1)[of cs] by simp
  qed
qed

lemma errorLoop_progressing:
  assumes "\<exists>c\<in>set cs. DType c = DeploymentProgressing"
    and "\<forall>c\<in>set cs. DType c = DeploymentProgressing \<longrightarrow>
           DStatus c = ConditionTrue \<and>
           (DReason c = ''NewReplicaSetAvailable'' \<or> DReason c = ''ReplicaSetUpdated'')"
  shows "snd (errorLoop cs da pk)"
  using assms
proof (induction cs arbitrary: da pk)
  case Nil
  then show ?case by simp
next
  case (Cons c cs)
  show ?case
  proof (cases "\<exists>x\<in>set cs. DType x = DeploymentProgressing")
    case True
    then show ?thesis using Cons.IH Cons.prems(2) by simp
  next
    case False
    then have "DType c = DeploymentProgressing" "DStatus c = ConditionTrue"
      "DReason c = ''NewReplicaSetAvailable'' \<or> DReason c = ''ReplicaSetUpdated''"
      using Cons.prems by auto
    then show ?thesis using False errorLoop_keeps(2)[of cs] by auto
  qed
qed

text \<open>After a condition is set, the condition of its type carries its status, reason and message.\<close>

lemma find_map_update:
  assumes "find P cs = Some old" and "\<And>x. P x \<Longrightarrow> P (f x)"
  shows "find P (map (\<lambda>x. if P x then f x else x) cs) = Some (f old)"
  using assms by (induction cs) (auto split: if_splits)

lemma find_snoc:
  "find P cs = None \<Longrightarrow> P n \<Longrightarrow> find P (cs @ [n]) = Some n"
  by (induction cs) (auto split: if_splits)

lemma upsertCondition_found:
  "\<exists>c'. find (\<lambda>x. CondType x = CondType c) (upsertCondition now c cs) = Some c' \<and>
        CondStatus c' = CondStatus c \<and> Reason c' = Reason c \<and> Message c' = Message c"
proof (cases "find (\<lambda>x. CondType x = CondType c) cs")
  case None
  then show ?thesis
    using find_snoc[of "\<lambda>x. CondType x = CondType c" cs
        "c\<lparr>LastTransitionTime := now,
           FirstTruthyTime := (if CondStatus c = ConditionTrue then Some now else None)\<rparr>"]
    by (simp add: upsertCondition_def)
next
  case (Some old)
  let ?f = "\<lambda>x. x\<lparr>CondStatus := CondStatus c, Reason := Reason c, Message := Message c,
                   LastTransitionTime := now,
                   FirstTruthyTime := (if CondStatus c = ConditionTrue \<and> firstTruthyUnset (Some x)
                                       then Some now else FirstTruthyTime x)\<rparr>"
  have "find (\<lambda>x. CondType x = CondType c)
          (map (\<lambda>x. if CondType x = CondType c then ?f x else x) cs) = Some (?f old)"
    by (rule find_map_update[OF Some]) simp
  then show ?thesis using Some by (simp add: upsertCondition_def)
qed

lemma SetConditions_ready:
  assumes "CondType c = IntegrationConditionReady"
  shows "\<exists>c'. GetCondition IntegrationConditionReady (SetConditions now [c] st) = Some c' \<and>
           CondStatus c' = CondStatus c \<and> Reason c' = Reason c \<and> Message c' = Message c"
  using upsertCondition_found[of c now "Conditions st"] assms
  by (simp add: GetCondition_def SetConditions_def)

lemma Handle_from_health:
  "beforeHealth env integration = Inr s \<Longrightarrow> Handle env integration = deploymentHealth env s"
  by (simp add: Handle_def)

text \<open>
  In the demo cluster a pass that starts in phase Running or Error arrives at the check
  of the deployment in that phase, with the "deployment available" condition True.
\<close>

lemma demo_beforeHealth:
  assumes "phase \<noteq> IntegrationPhaseDeploying"
  shows "\<exists>i evs. beforeHealth (demoEnv (Inr demoPending) (Inr demoRunning) deployment)
                               (demoIntegration phase) = Inr (i, evs) \<and>
           Phase (Status i) = phase \<and>
           IsConditionTrue i IntegrationConditionDeploymentAvailable \<and>
           Name i = ''demo'' \<and> Namespace i = ''ns''"
  using assms
  by (simp add: demo_defs aux_defs beforeHealth_def beforeMirror_def beforeReplicas_def
      beforeApply_def andThen_def checkRebuild_def upgradeKit_def applyTraits_def
      accountReplicas_def mirrorReady_def Let_def)

text \<open>
  Claim C2. A pass arrives at the check of the deployment with the workload in phase
  Running and its "deployment available" condition True. When the deployment that is
  fetched reports Available False and Progressing True with reason
  \<open>NewReplicaSetAvailable\<close>, and has zero available replicas, \<^verbatim>\<open>Handle\<close> sets the Ready
  condition to False with the error reason and the message about the pods, sets the
  phase to Error, and returns that workload; fetching the deployment is its last event.
\<close>

theorem crashing_deployment_sets_error:
  assumes "beforeHealth env integration = Inr (i, evs)"
    and "Phase (Status i) = IntegrationPhaseRunning"
    and "IsConditionTrue i IntegrationConditionDeploymentAvailable"
    and "kubernetes_GetDeployment env (Name i) (Namespace i) = Inr deployment"
    and "reports deployment DeploymentAvailable (\<lambda>c. DStatus c = ConditionFalse)"
    and "reports deployment DeploymentProgressing
           (\<lambda>c. DStatus c = ConditionTrue \<and> DReason c = ''NewReplicaSetAvailable'')"
    and "AvailableReplicas deployment = 0"
  shows "\<exists>updated ready.
           Handle env integration =
             \<lparr>returned = Inr updated, object = updated,
              events = evs @ [EvGetDeployment (Name i) (Namespace i)]\<rparr> \<and>
           updated = i\<lparr>Status := (SetConditions (metav1_Now env) [notAvailableCondition] (Status i))
                                   \<lparr>Phase := IntegrationPhaseError\<rparr>\<rparr> \<and>
           Phase (Status updated) = IntegrationPhaseError \<and>
           GetCondition IntegrationConditionReady (Status updated) = Some ready \<and>
           CondStatus ready = ConditionFalse \<and>
           Reason ready = IntegrationConditionErrorReason \<and>
           Message ready =
             ''The corresponding pod(s) may be in error state, look at the pod status or log for errors''"
proof -
  let ?updated = "i\<lparr>Status := (SetConditions (metav1_Now env) [notAvailableCondition] (Status i))
                                   \<lparr>Phase := IntegrationPhaseError\<rparr>\<rparr>"
  have du: "fst (runningLoop deployment (DeploymentConditions deployment) False False)"
    using assms(5) by (intro runningLoop_unavailable) (auto simp: reports_def)
  have pf: "snd (runningLoop deployment (DeploymentConditions deployment) False False)"
    using assms(6,7) by (intro runningLoop_failing) (auto simp: reports_def)
  have rl: "runningLoop deployment (DeploymentConditions deployment) False False = (True, True)"
    using du pf by (simp add: prod_eq_iff)
  have run: "Handle env integration =
      \<lparr>returned = Inr ?updated, object = ?updated,
       events = evs @ [EvGetDeployment (Name i) (Namespace i)]\<rparr>"
    using Handle_from_health[OF assms(1)] assms(2,3,4) rl
    by (simp add: deploymentHealth_def succeed_def Let_def)
  obtain ready where ready: "GetCondition IntegrationConditionReady
        (SetConditions (metav1_Now env) [notAvailableCondition] (Status i)) = Some ready"
      "CondStatus ready = CondStatus notAvailableCondition" "Reason ready = Reason notAvailableCondition"
      "Message ready = Message notAvailableCondition"
    using SetConditions_ready[of notAvailableCondition "metav1_Now env" "Status i"]
    by (auto simp: notAvailableCondition_def)
  have g: "GetCondition IntegrationConditionReady (Status ?updated) = Some ready"
    using ready(1) by (simp add: GetCondition_def)
  show ?thesis
    apply (rule exI[of _ ?updated])
    apply (rule exI[of _ ready])
    using run g ready(2-4) by (simp add: notAvailableCondition_def)
qed

theorem crashing_deployment_sets_error_witness:
  "returned (Handle (demoEnv (Inr demoPending) (Inr demoRunning) (Inr crashing))
                    (demoIntegration IntegrationPhaseRunning)) =
     Inr (object (Handle (demoEnv (Inr demoPending) (Inr demoRunning) (Inr crashing))
                         (demoIntegration IntegrationPhaseRunning))) \<and>
   Phase (Status (object (Handle (demoEnv (Inr demoPending) (Inr demoRunning) (Inr crashing))
                                 (demoIntegration IntegrationPhaseRunning)))) =
     IntegrationPhaseError \<and>
   map_option CondStatus
     (GetCondition IntegrationConditionReady
        (Status (object (Handle (demoEnv (Inr demoPending) (Inr demoRunning) (Inr crashing))
                                (demoIntegration IntegrationPhaseRunning))))) =
     Some ConditionFalse"
proof -
  let ?env = "demoEnv (Inr demoPending) (Inr demoRunning) (Inr crashing)"
  obtain i evs where reach: "beforeHealth ?env (demoIntegration IntegrationPhaseRunning) = Inr (i, evs)"
    and ph: "Phase (Status i) = IntegrationPhaseRunning"
    and av: "IsConditionTrue i IntegrationConditionDeploymentAvailable"
    and nm: "Name i = ''demo''" "Namespace i = ''ns''"
    using demo_beforeHealth[of IntegrationPhaseRunning "Inr crashing"] by auto
  have d: "kubernetes_GetDeployment ?env (Name i) (Namespace i) = Inr crashing"
    by (simp add: demoEnv_def)
  have r1: "reports crashing DeploymentAvailable (\<lambda>c. DStatus c = ConditionFalse)"
    and r2: "reports crashing DeploymentProgressing
               (\<lambda>c. DStatus c = ConditionTrue \<and> DReason c = ''NewReplicaSetAvailable'')"
    and r3: "AvailableReplicas crashing = 0"
    by (simp_all add: reports_def crashing_def mkDeployment_def)
  from crashing_deployment_sets_error[OF reach ph av d r1 r2 r3]
  show ?thesis by auto
qed

text \<open>
  Claim C3. A pass arrives at the check of the deployment with the workload in phase
  Error and its "deployment available" condition True. When the deployment that is
  fetched reports Available True and Progressing True with reason
  \<open>NewReplicaSetAvailable\<close> or \<open>ReplicaSetUpdated\<close>, \<^verbatim>\<open>Handle\<close> sets the Ready condition to
  True, sets the phase to Running, and returns that workload.
\<close>

theorem recovered_deployment_sets_running:
  assumes "beforeHealth env integration = Inr (i, evs)"
    and "Phase (Status i) = IntegrationPhaseError"
    and "IsConditionTrue i IntegrationConditionDeploymentAvailable"
    and "kubernetes_GetDeployment env (Name i) (Namespace i) = Inr deployment"
    and "reports deployment DeploymentAvailable (\<lambda>c. DStatus c = ConditionTrue)"
    and "reports deployment DeploymentProgressing
           (\<lambda>c. DStatus c = ConditionTrue \<and>
                (DReason c = ''NewReplicaSetAvailable'' \<or> DReason c = ''ReplicaSetUpdated''))"
  shows "\<exists>updated ready.
           Handle env integration =
             \<lparr>returned = Inr updated, object = updated,
              events = evs @ [EvGetDeployment (Name i) (Namespace i)]\<rparr> \<and>
           updated = i\<lparr>Status := (SetConditions (metav1_Now env) [availableCondition] (Status i))
                                   \<lparr>Phase := IntegrationPhaseRunning\<rparr>\<rparr> \<and>
           Phase (Status updated) = IntegrationPhaseRunning \<and>
           GetCondition IntegrationConditionReady (Status updated) = Some ready \<and>
           CondStatus ready = ConditionTrue"
proof -
  let ?updated = "i\<lparr>Status := (SetConditions (metav1_Now env) [availableCondition] (Status i))
                                   \<lparr>Phase := IntegrationPhaseRunning\<rparr>\<rparr>"
  have da: "fst (errorLoop (DeploymentConditions deployment) False False)"
    using assms(5) by (intro errorLoop_available) (auto simp: reports_def)
  have pk: "snd (errorLoop (DeploymentConditions deployment) False False)"
    using assms(6) by (intro errorLoop_progressing) (auto simp: reports_def)
  have el: "errorLoop (DeploymentConditions deployment) False False = (True, True)"
    using da pk by (simp add: prod_eq_iff)
  have run: "Handle env integration =
      \<lparr>returned = Inr ?updated, object = ?updated,
       events = evs @ [EvGetDeployment (Name i) (Namespace i)]\<rparr>"
    using Handle_from_health[OF assms(1)] assms(2,3,4) el
    by (simp add: deploymentHealth_def succeed_def Let_def)
  obtain ready where ready: "GetCondition IntegrationConditionReady
        (SetConditions (metav1_Now env) [availableCondition] (Status i)) = Some ready"
      "CondStatus ready = CondStatus availableCondition"
    using SetConditions_ready[of availableCondition "metav1_Now env" "Status i"]
    by (auto simp: availableCondition_def)
  have g: "GetCondition IntegrationConditionReady (Status ?updated) = Some ready"
    using ready(1) by (simp add: GetCondition_def)
  show ?thesis
    apply (rule exI[of _ ?updated])
    apply (rule exI[of _ ready])
    using run g ready(2) by (simp add: availableCondition_def)
qed

text \<open>The recovery scenario of the spec: Available True, Progressing True, \<open>ReplicaSetUpdated\<close>.\<close>

theorem recovered_deployment_sets_running_witness:
  "returned (Handle (demoEnv (Inr demoPending) (Inr demoRunning)
                       (Inr (mkDeployment ConditionTrue ''ReplicaSetUpdated'' 1)))
                    (demoIntegration IntegrationPhaseError)) =
     Inr (object (Handle (demoEnv (Inr demoPending) (Inr demoRunning)
                            (Inr (mkDeployment ConditionTrue ''ReplicaSetUpdated'' 1)))
                         (demoIntegration IntegrationPhaseError))) \<and>
   Phase (Status (object (Handle (demoEnv (Inr demoPending) (Inr demoRunning)
                                    (Inr (mkDeployment ConditionTrue ''ReplicaSetUpdated'' 1)))
                                 (demoIntegration IntegrationPhaseError)))) =
     IntegrationPhaseRunning \<and>
   map_option CondStatus
     (GetCondition IntegrationConditionReady
        (Status (object (Handle (demoEnv (Inr demoPending) (Inr demoRunning)
                                   (Inr (mkDeployment ConditionTrue ''ReplicaSetUpdated'' 1)))
                                (demoIntegration IntegrationPhaseError))))) =
     Some ConditionTrue"
proof -
  let ?d = "mkDeployment ConditionTrue ''ReplicaSetUpdated'' 1"
  let ?env = "demoEnv (Inr demoPending) (Inr demoRunning) (Inr ?d)"
  obtain i evs where reach: "beforeHealth ?env (demoIntegration IntegrationPhaseError) = Inr (i, evs)"
    and ph: "Phase (Status i) = IntegrationPhaseError"
    and av: "IsConditionTrue i IntegrationConditionDeploymentAvailable"
    and nm: "Name i = ''demo''" "Namespace i = ''ns''"
    using demo_beforeHealth[of IntegrationPhaseError "Inr ?d"] by auto
  have d: "kubernetes_GetDeployment ?env (Name i) (Namespace i) = Inr ?d"
    by (simp add: demoEnv_def)
  have r1: "reports ?d DeploymentAvailable (\<lambda>c. DStatus c = ConditionTrue)"
    and r2: "reports ?d DeploymentProgressing
               (\<lambda>c. DStatus c = ConditionTrue \<and>
                    (DReason c = ''NewReplicaSetAvailable'' \<or> DReason c = ''ReplicaSetUpdated''))"
    by (simp_all add: reports_def mkDeployment_def)
  from recovered_deployment_sets_running[OF reach ph av d r1 r2]
  show ?thesis by auto
qed

subsection \<open>Errors and the workload object\<close>

text \<open>
  Where a pass that fails after the selection leaves the object: the traits are handed
  the workload as it came in or rebound, and each later step adds its own writes.
\<close>

lemma beforeApply_rebound:
  assumes "beforeApply env integration = Inr (rebound, kit, evs)"
  shows "rebound = integration \<or> (\<exists>bound kits k. lookupKitsForIntegration env integration bound = Inr kits \<and>
          findHighestPriorityReadyKit kits = Inr (Some k) \<and> rebound = SetIntegrationKit k integration)"
proof -
  from assms obtain ref where ref: "checkRebuild env integration = Inr (integration, ref, [EvComputeForIntegration])"
    and up: "upgradeKit env (integration, ref, [EvComputeForIntegration]) = Inr (rebound, kit, evs)"
    by (auto simp: beforeApply_def andThen_def checkRebuild_def Let_def
        split: option.splits sum.splits if_splits)
  from up obtain bound kits sel where
    look: "lookupKitsForIntegration env integration bound = Inr kits"
    and found: "findHighestPriorityReadyKit kits = Inr sel"
    and rb: "rebound = (case sel of None \<Rightarrow> integration | Some k \<Rightarrow> SetIntegrationKit k integration)"
    by (auto simp: upgradeKit_def Let_def split: sum.splits)
  show ?thesis
  proof (cases sel)
    case None
    then show ?thesis using rb by simp
  next
    case (Some k)
    then show ?thesis using look found rb by auto
  qed
qed

lemma trait_failure:
  assumes "beforeApply env integration = Inr (rebound, kit, evs)"
    and "trait_Apply env rebound kit = (left, Some err)"
  shows "Handle env integration = failWith err left (evs @ [EvTraitApply rebound kit])"
proof -
  have "beforeReplicas env integration = Inl (failWith err left (evs @ [EvTraitApply rebound kit]))"
    using assms by (simp add: beforeReplicas_def andThen_def applyTraits_def Let_def)
  then show ?thesis by (rule Handle_returned_early(2))
qed

lemma beforeReplicas_applied:
  assumes "beforeReplicas env integration = Inr (applied, evs1)"
  shows "\<exists>rebound kit. applied = fst (trait_Apply env rebound kit) \<and>
           (rebound = integration \<or> (\<exists>bound kits k. lookupKitsForIntegration env integration bound = Inr kits \<and>
          findHighestPriorityReadyKit kits = Inr (Some k) \<and> rebound = SetIntegrationKit k integration))"
proof (cases "beforeApply env integration")
  case (Inl r)
  then show ?thesis using assms by (simp add: beforeReplicas_def andThen_def)
next
  case (Inr s)
  obtain rebound kit evs where s: "s = (rebound, kit, evs)" by (cases s)
  have "applyTraits env (rebound, kit, evs) = Inr (applied, evs1)"
    using assms Inr s by (simp add: beforeReplicas_def andThen_def)
  then have "applied = fst (trait_Apply env rebound kit)"
    using applyTraits_events(2) by blast
  then show ?thesis using beforeApply_rebound[of env integration rebound kit evs] Inr s by blast
qed

lemma pod_list_failure:
  assumes "beforeReplicas env integration = Inr (applied, evs1)"
    and "client_List env (Namespace applied) (Name applied) PodPending = Inl err \<or>
         ((\<exists>pods. client_List env (Namespace applied) (Name applied) PodPending = Inr pods) \<and>
          client_List env (Namespace applied) (Name applied) PodRunning = Inl err)"
  shows "returned (Handle env integration) = Inl err \<and>
         object (Handle env integration) =
           applied\<lparr>Status := (Status applied)\<lparr>Selector := IntegrationLabel @ ''='' @ Name applied\<rparr>\<rparr>"
proof -
  obtain r where r: "accountReplicas env (applied, evs1) = Inl r" "returned r = Inl err"
    "object r = applied\<lparr>Status := (Status applied)\<lparr>Selector := IntegrationLabel @ ''='' @ Name applied\<rparr>\<rparr>"
    using assms(2) by (auto simp: accountReplicas_def failWith_def Let_def)
  have "beforeMirror env integration = Inl r"
    using assms(1) r(1) by (simp add: beforeMirror_def andThen_def)
  from Handle_returned_early(3)[OF this] r(2,3) show ?thesis by simp
qed

lemma beforeHealth_mirrored:
  assumes "beforeReplicas env integration = Inr (applied, evs1)"
    and "beforeHealth env integration = Inr (mirrored, evs2)"
  shows "\<exists>podCount counted.
           counted = applied\<lparr>Status := (Status applied)
             \<lparr>Selector := IntegrationLabel @ ''='' @ Name applied,
              Replicas := Some podCount,
              Phase := (if Phase (Status applied) = IntegrationPhaseDeploying
                        then IntegrationPhaseRunning else Phase (Status applied))\<rparr>\<rparr> \<and>
           mirrored = counted\<lparr>Status := (Status counted)
             \<lparr>Conditions := kubernetes_MirrorReadyCondition env counted\<rparr>\<rparr>"
proof (cases "accountReplicas env (applied, evs1)")
  case (Inl r)
  then show ?thesis using assms by (simp add: beforeHealth_def beforeMirror_def andThen_def)
next
  case (Inr s)
  obtain counted evs where s: "s = (counted, evs)" by (cases s)
  have bm: "beforeMirror env integration = Inr (counted, evs)"
    using assms(1) Inr s by (simp add: beforeMirror_def andThen_def)
  have m: "mirrored = fst (mirrorReady env (counted, evs))"
    using assms(2) bm by (simp add: beforeHealth_def andThen_def)
  obtain podCount where "counted = applied\<lparr>Status := (Status applied)
             \<lparr>Selector := IntegrationLabel @ ''='' @ Name applied,
              Replicas := Some podCount,
              Phase := (if Phase (Status applied) = IntegrationPhaseDeploying
                        then IntegrationPhaseRunning else Phase (Status applied))\<rparr>\<rparr>"
    using Inr s by (auto simp: accountReplicas_def Let_def split: sum.splits if_splits)
  then show ?thesis using m mirrorReady_object[of env counted evs] by blast
qed

lemma deployment_failure:
  assumes "beforeHealth env integration = Inr (mirrored, evs2)"
    and "IsConditionTrue mirrored IntegrationConditionDeploymentAvailable"
    and "kubernetes_GetDeployment env (Name mirrored) (Namespace mirrored) = Inl err"
  shows "returned (Handle env integration) = Inl err \<and> object (Handle env integration) = mirrored"
  using Handle_from_health[OF assms(1)] assms(2,3)
  by (simp add: deploymentHealth_def failWith_def Let_def)

text \<open>
  Claim C7, as stated, fails: \<^verbatim>\<open>Handle\<close> changes the Integration behind its pointer as
  it goes, and an error that comes late leaves the changes made so far. In the demo
  cluster the workload is rebound to \<open>kit-b\<close> (line 103) before the traits run. When the
  traits fail, the object it was given carries that rebinding; when the list of pending
  pods fails, also the selector (line 115); when the deployment is not fetched, also
  the replica count, the step from Deploying to Running and the mirrored conditions
  (lines 142, 146 and 152).
\<close>

theorem late_errors_leave_changes:
  "returned (Handle ((demoEnv (Inr demoPending) (Inr demoRunning) (Inr healthy))
                       \<lparr>trait_Apply := (\<lambda>i k. (i, Some (ErrCollaborator ''trait failed'')))\<rparr>)
                    (demoIntegration IntegrationPhaseRunning)) =
     Inl (ErrCollaborator ''trait failed'') \<and>
   Status (object (Handle ((demoEnv (Inr demoPending) (Inr demoRunning) (Inr healthy))
                       \<lparr>trait_Apply := (\<lambda>i k. (i, Some (ErrCollaborator ''trait failed'')))\<rparr>)
                    (demoIntegration IntegrationPhaseRunning))) =
     (Status (demoIntegration IntegrationPhaseRunning))
       \<lparr>IntegrationKit := Some \<lparr>RefNamespace = ''ns'', RefName = ''kit-b''\<rparr>\<rparr> \<and>
   returned (Handle (demoEnv (Inl (ErrCollaborator ''list failed'')) (Inr demoRunning) (Inr healthy))
                    (demoIntegration IntegrationPhaseRunning)) =
     Inl (ErrCollaborator ''list failed'') \<and>
   Status (object (Handle (demoEnv (Inl (ErrCollaborator ''list failed'')) (Inr demoRunning) (Inr healthy))
                    (demoIntegration IntegrationPhaseRunning))) =
     (Status (demoIntegration IntegrationPhaseRunning))
       \<lparr>IntegrationKit := Some \<lparr>RefNamespace = ''ns'', RefName = ''kit-b''\<rparr>,
        Selector := IntegrationLabel @ ''=demo''\<rparr> \<and>
   returned (Handle (demoEnv (Inr demoPending) (Inr demoRunning) (Inl (ErrCollaborator ''timeout'')))
                    (demoIntegration IntegrationPhaseDeploying)) =
     Inl (ErrCollaborator ''timeout'') \<and>
   Status (object (Handle (demoEnv (Inr demoPending) (Inr demoRunning) (Inl (ErrCollaborator ''timeout'')))
                    (demoIntegration IntegrationPhaseDeploying))) =
     (Status (demoIntegration IntegrationPhaseDeploying))
       \<lparr>Phase := IntegrationPhaseRunning,
        IntegrationKit := Some \<lparr>RefNamespace = ''ns'', RefName = ''kit-b''\<rparr>,
        Selector := IntegrationLabel @ ''=demo'',
        Replicas := Some 5,
        Conditions :=
          [mkCondition IntegrationConditionDeploymentAvailable ConditionTrue,
           (mkCondition IntegrationConditionReady ConditionTrue)
             \<lparr>LastTransitionTime := 500, FirstTruthyTime := Some 500\<rparr>]\<rparr> \<and>
   Selector (Status (demoIntegration IntegrationPhaseRunning)) = [] \<and>
   IntegrationKit (Status (demoIntegration IntegrationPhaseRunning)) =
     Some \<lparr>RefNamespace = ''ns'', RefName = ''kit-a''\<rparr>"
  by (simp add: demo_defs step_defs aux_defs Let_def)

text \<open>
  Claim C7, amended. When \<^verbatim>\<open>Handle\<close> returns an error without having called
  \<^verbatim>\<open>trait.Apply\<close> (no bound Kit, digest failure, Kit not found, priority not accepted by
  the selector, candidate lookup failure, malformed priority of a ready candidate), the
  workload is exactly as it was at entry. When \<^verbatim>\<open>trait.Apply\<close> fails, \<^verbatim>\<open>Handle\<close> returns its
  error and the workload is as \<^verbatim>\<open>trait.Apply\<close> left it, having been handed the workload
  as it was at entry or rebound to the upgraded Kit. When a pod list fails, \<^verbatim>\<open>Handle\<close>
  returns that error and the workload is the one the traits left, with the selector
  written. When the deployment is not fetched, \<^verbatim>\<open>Handle\<close> returns that error and the
  workload is the one the traits left, with the selector, a replica count, the step
  from Deploying to Running and the mirrored conditions written.
\<close>

theorem errors_and_the_workload:
  "(returned (Handle env integration) = Inl err \<and>
    traitApplications (events (Handle env integration)) = [] \<longrightarrow>
      object (Handle env integration) = integration) \<and>
   (beforeApply env integration = Inr (rebound, kit, evs) \<longrightarrow>
      (rebound = integration \<or> (\<exists>bound kits k. lookupKitsForIntegration env integration bound = Inr kits \<and>
          findHighestPriorityReadyKit kits = Inr (Some k) \<and> rebound = SetIntegrationKit k integration)) \<and>
      (trait_Apply env rebound kit = (left, Some err) \<longrightarrow>
         returned (Handle env integration) = Inl err \<and> object (Handle env integration) = left)) \<and>
   (beforeReplicas env integration = Inr (applied, evs1) \<longrightarrow>
      (\<exists>given k. applied = fst (trait_Apply env given k) \<and>
         (given = integration \<or> (\<exists>bound kits upgraded. lookupKitsForIntegration env integration bound = Inr kits \<and>
            findHighestPriorityReadyKit kits = Inr (Some upgraded) \<and>
            given = SetIntegrationKit upgraded integration))) \<and>
      (client_List env (Namespace applied) (Name applied) PodPending = Inl err \<or>
       ((\<exists>pods. client_List env (Namespace applied) (Name applied) PodPending = Inr pods) \<and>
        client_List env (Namespace applied) (Name applied) PodRunning = Inl err) \<longrightarrow>
         returned (Handle env integration) = Inl err \<and>
         object (Handle env integration) =
           applied\<lparr>Status := (Status applied)
             \<lparr>Selector := IntegrationLabel @ ''='' @ Name applied\<rparr>\<rparr>) \<and>
      (beforeHealth env integration = Inr (mirrored, evs2) \<and>
       IsConditionTrue mirrored IntegrationConditionDeploymentAvailable \<and>
       kubernetes_GetDeployment env (Name mirrored) (Namespace mirrored) = Inl err \<longrightarrow>
         returned (Handle env integration) = Inl err \<and>
         object (Handle env integration) = mirrored \<and>
         (\<exists>podCount counted.
            counted = applied\<lparr>Status := (Status applied)
              \<lparr>Selector := IntegrationLabel @ ''='' @ Name applied,
               Replicas := Some podCount,
               Phase := (if Phase (Status applied) = IntegrationPhaseDeploying
                         then IntegrationPhaseRunning else Phase (Status applied))\<rparr>\<rparr> \<and>
            mirrored = counted\<lparr>Status := (Status counted)
              \<lparr>Conditions := kubernetes_MirrorReadyCondition env counted\<rparr>\<rparr>)))"
proof -
  have early: "returned (Handle env integration) = Inl err \<and>
      traitApplications (events (Handle env integration)) = [] \<longrightarrow>
        object (Handle env integration) = integration"
  proof (cases "beforeApply env integration")
    case (Inl r)
    then show ?thesis using Handle_returned_early(1)[OF Inl] beforeApply_early[OF Inl] by simp
  next
    case (Inr s)
    obtain rb k es where "s = (rb, k, es)" by (cases s)
    then show ?thesis using Handle_trait_applications[of env integration rb k es] Inr by simp
  qed
  have traits: "beforeApply env integration = Inr (rebound, kit, evs) \<longrightarrow>
      (rebound = integration \<or> (\<exists>bound kits k. lookupKitsForIntegration env integration bound = Inr kits \<and>
          findHighestPriorityReadyKit kits = Inr (Some k) \<and> rebound = SetIntegrationKit k integration)) \<and>
      (trait_Apply env rebound kit = (left, Some err) \<longrightarrow>
         returned (Handle env integration) = Inl err \<and> object (Handle env integration) = left)"
    using beforeApply_rebound[of env integration rebound kit evs]
      trait_failure[of env integration rebound kit evs left err]
    by (simp add: failWith_def)
  have later: "beforeReplicas env integration = Inr (applied, evs1) \<longrightarrow>
      (\<exists>given k. applied = fst (trait_Apply env given k) \<and>
         (given = integration \<or> (\<exists>bound kits upgraded. lookupKitsForIntegration env integration bound = Inr kits \<and>
            findHighestPriorityReadyKit kits = Inr (Some upgraded) \<and>
            given = SetIntegrationKit upgraded integration))) \<and>
      (client_List env (Namespace applied) (Name applied) PodPending = Inl err \<or>
       ((\<exists>pods. client_List env (Namespace applied) (Name applied) PodPending = Inr pods) \<and>
        client_List env (Namespace applied) (Name applied) PodRunning = Inl err) \<longrightarrow>
         returned (Handle env integration) = Inl err \<and>
         object (Handle env integration) =
           applied\<lparr>Status := (Status applied)
             \<lparr>Selector := IntegrationLabel @ ''='' @ Name applied\<rparr>\<rparr>) \<and>
      (beforeHealth env integration = Inr (mirrored, evs2) \<and>
       IsConditionTrue mirrored IntegrationConditionDeploymentAvailable \<and>
       kubernetes_GetDeployment env (Name mirrored) (Namespace mirrored) = Inl err \<longrightarrow>
         returned (Handle env integration) = Inl err \<and>
         object (Handle env integration) = mirrored \<and>
         (\<exists>podCount counted.
            counted = applied\<lparr>Status := (Status applied)
              \<lparr>Selector := IntegrationLabel @ ''='' @ Name applied,
               Replicas := Some podCount,
               Phase := (if Phase (Status applied) = IntegrationPhaseDeploying
                         then IntegrationPhaseRunning else Phase (Status applied))\<rparr>\<rparr> \<and>
            mirrored = counted\<lparr>Status := (Status counted)
              \<lparr>Conditions := kubernetes_MirrorReadyCondition env counted\<rparr>\<rparr>))"
  proof
    assume br: "beforeReplicas env integration = Inr (applied, evs1)"
    show "(\<exists>given k. applied = fst (trait_Apply env given k) \<and>
         (given = integration \<or> (\<exists>bound kits upgraded. lookupKitsForIntegration env integration bound = Inr kits \<and>
            findHighestPriorityReadyKit kits = Inr (Some upgraded) \<and>
            given = SetIntegrationKit upgraded integration))) \<and>
      (client_List env (Namespace applied) (Name applied) PodPending = Inl err \<or>
       ((\<exists>pods. client_List env (Namespace applied) (Name applied) PodPending = Inr pods) \<and>
        client_List env (Namespace applied) (Name applied) PodRunning = Inl err) \<longrightarrow>
         returned (Handle env integration) = Inl err \<and>
         object (Handle env integration) =
           applied\<lparr>Status := (Status applied)
             \<lparr>Selector := IntegrationLabel @ ''='' @ Name applied\<rparr>\<rparr>) \<and>
      (beforeHealth env integration = Inr (mirrored, evs2) \<and>
       IsConditionTrue mirrored IntegrationConditionDeploymentAvailable \<and>
       kubernetes_GetDeployment env (Name mirrored) (Namespace mirrored) = Inl err \<longrightarrow>
         returned (Handle env integration) = Inl err \<and>
         object (Handle env integration) = mirrored \<and>
         (\<exists>podCount counted.
            counted = applied\<lparr>Status := (Status applied)
              \<lparr>Selector := IntegrationLabel @ ''='' @ Name applied,
               Replicas := Some podCount,
               Phase := (if Phase (Status applied) = IntegrationPhaseDeploying
                         then IntegrationPhaseRunning else Phase (Status applied))\<rparr>\<rparr> \<and>
            mirrored = counted\<lparr>Status := (Status counted)
              \<lparr>Conditions := kubernetes_MirrorReadyCondition env counted\<rparr>\<rparr>))"
      using beforeReplicas_applied[OF br] pod_list_failure[OF br, of err]
        beforeHealth_mirrored[OF br, of mirrored evs2]
        deployment_failure[of env integration mirrored evs2 err]
      by blast
  qed
  from early traits later show ?thesis by blast
qed

text \<open>
  Four failing passes over the demo workload: the bound Kit is not found (the workload
  is untouched), the traits fail (it is rebound to \<open>kit-b\<close> and nothing else), the list
  of pending pods fails (rebound, selector written), the deployment is not fetched.
\<close>

theorem errors_and_the_workload_witness:
  "object (Handle ((demoEnv (Inr demoPending) (Inr demoRunning) (Inr healthy))
                     \<lparr>kubernetes_GetIntegrationKit :=
                        (\<lambda>name namespace. Inl (ErrCollaborator ''not found''))\<rparr>)
                  (demoIntegration IntegrationPhaseRunning)) =
     demoIntegration IntegrationPhaseRunning \<and>
   object (Handle ((demoEnv (Inr demoPending) (Inr demoRunning) (Inr healthy))
                     \<lparr>trait_Apply := (\<lambda>i k. (i, Some (ErrCollaborator ''trait failed'')))\<rparr>)
                  (demoIntegration IntegrationPhaseRunning)) =
     SetIntegrationKit kitB (demoIntegration IntegrationPhaseRunning) \<and>
   object (Handle (demoEnv (Inl (ErrCollaborator ''list failed'')) (Inr demoRunning) (Inr healthy))
                  (demoIntegration IntegrationPhaseRunning)) =
     (SetIntegrationKit kitB (demoIntegration IntegrationPhaseRunning))
       \<lparr>Status := (Status (SetIntegrationKit kitB (demoIntegration IntegrationPhaseRunning)))
          \<lparr>Selector := IntegrationLabel @ ''=demo''\<rparr>\<rparr> \<and>
   returned (Handle (demoEnv (Inr demoPending) (Inr demoRunning) (Inl (ErrCollaborator ''timeout'')))
                    (demoIntegration IntegrationPhaseRunning)) =
     Inl (ErrCollaborator ''timeout'') \<and>
   Selector (Status (object
     (Handle (demoEnv (Inr demoPending) (Inr demoRunning) (Inl (ErrCollaborator ''timeout'')))
             (demoIntegration IntegrationPhaseRunning)))) = IntegrationLabel @ ''=demo''"
proof -
  let ?i = "demoIntegration IntegrationPhaseRunning"
  let ?rebound = "SetIntegrationKit kitB ?i"
  let ?evs = "[EvComputeForIntegration, EvGetIntegrationKit ''kit-a'' ''ns'', EvLookupKits ''1'']"
  \<comment> \<open>the bound Kit is not found\<close>
  let ?envA = "(demoEnv (Inr demoPending) (Inr demoRunning) (Inr healthy))
                \<lparr>kubernetes_GetIntegrationKit :=
                   (\<lambda>name namespace. Inl (ErrCollaborator ''not found''))\<rparr>"
  have runA: "Handle ?envA ?i =
      failWith (ErrUnableToFindKit ''ns'' ''kit-a'' (ErrCollaborator ''not found'')) ?i
        [EvComputeForIntegration, EvGetIntegrationKit ''kit-a'' ''ns'']"
    by (simp add: demoEnv_def demoIntegration_def mkCondition_def Handle_def beforeHealth_def
        beforeMirror_def beforeReplicas_def beforeApply_def andThen_def checkRebuild_def
        upgradeKit_def Let_def)
  have a: "returned (Handle ?envA ?i) =
             Inl (ErrUnableToFindKit ''ns'' ''kit-a'' (ErrCollaborator ''not found'')) \<and>
           traitApplications (events (Handle ?envA ?i)) = []"
    by (simp add: runA failWith_def)
  \<comment> \<open>the traits fail\<close>
  let ?envB = "(demoEnv (Inr demoPending) (Inr demoRunning) (Inr healthy))
                \<lparr>trait_Apply := (\<lambda>i k. (i, Some (ErrCollaborator ''trait failed'')))\<rparr>"
  have b1: "beforeApply ?envB ?i = Inr (?rebound, kitA, ?evs)"
    by (simp add: demo_defs aux_defs beforeApply_def andThen_def checkRebuild_def
        upgradeKit_def Let_def)
  have b2: "trait_Apply ?envB ?rebound kitA = (?rebound, Some (ErrCollaborator ''trait failed''))"
    by (simp add: demoEnv_def)
  \<comment> \<open>the list of pending pods fails\<close>
  let ?envC = "demoEnv (Inl (ErrCollaborator ''list failed'')) (Inr demoRunning) (Inr healthy)"
  have c1: "beforeReplicas ?envC ?i = Inr (?rebound, ?evs @ [EvTraitApply ?rebound kitA])"
    using demo_beforeReplicas[of "Inl (ErrCollaborator ''list failed'')" "Inr demoRunning"
        "Inr healthy" IntegrationPhaseRunning] by simp
  have c2: "client_List ?envC (Namespace ?rebound) (Name ?rebound) PodPending =
              Inl (ErrCollaborator ''list failed'')"
    by (simp add: demoEnv_def)
  have c3: "Name ?rebound = ''demo''"
    by (simp add: SetIntegrationKit_def demoIntegration_def)
  \<comment> \<open>the deployment is not fetched\<close>
  let ?envD = "demoEnv (Inr demoPending) (Inr demoRunning) (Inl (ErrCollaborator ''timeout''))"
  have d1: "beforeReplicas ?envD ?i = Inr (?rebound, ?evs @ [EvTraitApply ?rebound kitA])"
    using demo_beforeReplicas[of "Inr demoPending" "Inr demoRunning"
        "Inl (ErrCollaborator ''timeout'')" IntegrationPhaseRunning] by simp
  obtain mirrored evs2 where d2: "beforeHealth ?envD ?i = Inr (mirrored, evs2)"
    and d3: "IsConditionTrue mirrored IntegrationConditionDeploymentAvailable"
    and d4: "Name mirrored = ''demo''" "Namespace mirrored = ''ns''"
    using demo_beforeHealth[of IntegrationPhaseRunning "Inl (ErrCollaborator ''timeout'')"] by auto
  have d5: "kubernetes_GetDeployment ?envD (Name mirrored) (Namespace mirrored) =
              Inl (ErrCollaborator ''timeout'')"
    by (simp add: demoEnv_def)
  note A = errors_and_the_workload[of ?envA ?i
      "ErrUnableToFindKit ''ns'' ''kit-a'' (ErrCollaborator ''not found'')"]
  note B = errors_and_the_workload[of ?envB ?i "ErrCollaborator ''trait failed''"
      ?rebound kitA ?evs ?rebound]
  note C = errors_and_the_workload[of ?envC ?i "ErrCollaborator ''list failed''" _ _ _ _
      ?rebound "?evs @ [EvTraitApply ?rebound kitA]"]
  note D = errors_and_the_workload[of ?envD ?i "ErrCollaborator ''timeout''" _ _ _ _
      ?rebound "?evs @ [EvTraitApply ?rebound kitA]" mirrored evs2]
  have wa: "object (Handle ?envA ?i) = ?i" using A a by blast
  have wb: "object (Handle ?envB ?i) = ?rebound" using B b1 b2 by blast
  have wc: "object (Handle ?envC ?i) =
      ?rebound\<lparr>Status := (Status ?rebound)\<lparr>Selector := IntegrationLabel @ ''='' @ Name ?rebound\<rparr>\<rparr>"
    using C c1 c2 by blast
  have wd: "returned (Handle ?envD ?i) = Inl (ErrCollaborator ''timeout'') \<and>
      object (Handle ?envD ?i) = mirrored \<and>
      (\<exists>podCount counted.
            counted = ?rebound\<lparr>Status := (Status ?rebound)
              \<lparr>Selector := IntegrationLabel @ ''='' @ Name ?rebound,
               Replicas := Some podCount,
               Phase := (if Phase (Status ?rebound) = IntegrationPhaseDeploying
                         then IntegrationPhaseRunning else Phase (Status ?rebound))\<rparr>\<rparr> \<and>
            mirrored = counted\<lparr>Status := (Status counted)
              \<lparr>Conditions := kubernetes_MirrorReadyCondition ?envD counted\<rparr>\<rparr>)"
    using D d1 d2 d3 d5 by blast
  have sel: "Selector (Status (object (Handle ?envD ?i))) = IntegrationLabel @ ''=demo''"
    using wd c3 by auto
  show ?thesis using wa wb wc wd sel c3 by simp
qed

subsection \<open>Time to first readiness\<close>







lemma deploymentHealth_returns:
  assumes "\<exists>d. kubernetes_GetDeployment env (Name i) (Namespace i) = Inr d"
  shows "\<exists>updated. returned (deploymentHealth env (i, evs)) = Inr updated"
  using assms
  by (auto simp: deploymentHealth_def succeed_def failWith_def Let_def
      split: sum.splits IntegrationPhase.splits prod.splits if_splits)

















end
